theory Spec2Isabelle
  imports Complex_Main
begin

section \<open>Python values, exceptions and dynamic operations\<close>

text \<open>
  The acquisition code of \<^verbatim>\<open>openaddr/cache.py\<close> is embedded as HOL functions.
  Exceptions are values: every function that can raise returns \<open>exn + 'a\<close>, with
  \<open>Inl\<close> the exception. A Python float is the real number it stands for; what the
  float operations of the code return (addition, division, rounding) is left to the
  environment, so that nothing is assumed about their precision.
\<close>

datatype exn =
    DownloadError string "exn option"
  | TypeError string
  | KeyError string
  | ValueError string
  | AttributeError string
  | IndexError string
  | ZeroDivisionError string
  | RuntimeError string
  | RecursionError string
  | UnboundLocalError string
  | StopIteration
  | IOError string
  | ShutilError string
  | RequestException string
  | Exception string

fun is_DownloadError :: "exn \<Rightarrow> bool" where
  "is_DownloadError (DownloadError m c) = True"
| "is_DownloadError e = False"

fun is_TypeError :: "exn \<Rightarrow> bool" where
  "is_TypeError (TypeError m) = True"
| "is_TypeError e = False"

text \<open>Sequencing of computations that may raise: the first exception wins.\<close>

definition ebind :: "exn + 'a \<Rightarrow> ('a \<Rightarrow> exn + 'b) \<Rightarrow> exn + 'b" where
  "ebind m f = (case m of Inl e \<Rightarrow> Inl e | Inr x \<Rightarrow> f x)"

fun emap :: "('a \<Rightarrow> exn + 'b) \<Rightarrow> 'a list \<Rightarrow> exn + 'b list" where
  "emap f [] = Inr []"
| "emap f (x # xs) =
     (case f x of
        Inl e \<Rightarrow> Inl e
      | Inr y \<Rightarrow> (case emap f xs of Inl e \<Rightarrow> Inl e | Inr ys \<Rightarrow> Inr (y # ys)))"

text \<open>What \<^verbatim>\<open>response.json()\<close> and \<^verbatim>\<open>json.load\<close> return. An object is an
  association list in insertion order, as a Python dict is.\<close>

datatype json =
    JNull
  | JBool bool
  | JNum real
  | JStr string
  | JArr "json list"
  | JObj "(string \<times> json) list"

fun py_truthy :: "json \<Rightarrow> bool" where
  "py_truthy JNull = False"
| "py_truthy (JBool b) = b"
| "py_truthy (JNum x) = (x \<noteq> 0)"
| "py_truthy (JStr s) = (s \<noteq> [])"
| "py_truthy (JArr xs) = (xs \<noteq> [])"
| "py_truthy (JObj kv) = (kv \<noteq> [])"

text \<open>\<^verbatim>\<open>d.get(k, default)\<close>: only a dict has the method.\<close>

fun py_get :: "json \<Rightarrow> string \<Rightarrow> json \<Rightarrow> exn + json" where
  "py_get (JObj kv) k d = (case map_of kv k of None \<Rightarrow> Inr d | Some v \<Rightarrow> Inr v)"
| "py_get j k d = Inl (AttributeError ''get'')"

text \<open>\<^verbatim>\<open>d[k]\<close> with a string key.\<close>

fun py_item :: "json \<Rightarrow> string \<Rightarrow> exn + json" where
  "py_item (JObj kv) k = (case map_of kv k of None \<Rightarrow> Inl (KeyError k) | Some v \<Rightarrow> Inr v)"
| "py_item j k = Inl (TypeError ''subscript'')"

text \<open>\<^verbatim>\<open>d[k]\<close> where the key \<open>k\<close> was itself read from JSON. The keys of a parsed
  object are strings, so no other key is found in one; subscripting anything but a dict by
  such a key is given as a \<^verbatim>\<open>TypeError\<close>.\<close>

fun py_item_j :: "json \<Rightarrow> json \<Rightarrow> exn + json" where
  "py_item_j d (JStr k) = py_item d k"
| "py_item_j (JObj kv) (JArr xs) = Inl (TypeError ''unhashable'')"
| "py_item_j (JObj kv) (JObj kv') = Inl (TypeError ''unhashable'')"
| "py_item_j (JObj kv) k = Inl (KeyError ''key'')"
| "py_item_j d k = Inl (TypeError ''subscript'')"

text \<open>\<^verbatim>\<open>xs[i]\<close> with a non-negative integer index.\<close>

fun py_at :: "json \<Rightarrow> nat \<Rightarrow> exn + json" where
  "py_at (JArr xs) i = (if i < length xs then Inr (xs ! i) else Inl (IndexError ''list''))"
| "py_at (JStr s) i = (if i < length s then Inr (JStr [s ! i]) else Inl (IndexError ''string''))"
| "py_at (JObj kv) i = Inl (KeyError ''int'')"
| "py_at j i = Inl (TypeError ''subscript'')"

text \<open>\<^verbatim>\<open>d[k] = v\<close>: an existing key keeps its place, a new one goes last.\<close>

fun dict_set :: "(string \<times> json) list \<Rightarrow> string \<Rightarrow> json \<Rightarrow> (string \<times> json) list" where
  "dict_set [] k v = [(k, v)]"
| "dict_set (p # ps) k v = (if fst p = k then (k, v) # ps else p # dict_set ps k v)"

fun py_setitem :: "json \<Rightarrow> string \<Rightarrow> json \<Rightarrow> exn + json" where
  "py_setitem (JObj kv) k v = Inr (JObj (dict_set kv k v))"
| "py_setitem j k v = Inl (TypeError ''item assignment'')"

fun py_len :: "json \<Rightarrow> exn + nat" where
  "py_len (JArr xs) = Inr (length xs)"
| "py_len (JStr s) = Inr (length s)"
| "py_len (JObj kv) = Inr (length kv)"
| "py_len j = Inl (TypeError ''len'')"

text \<open>\<^verbatim>\<open>for x in j\<close>: a list gives its elements, a dict its keys, a string its characters.\<close>

fun py_iter :: "json \<Rightarrow> exn + json list" where
  "py_iter (JArr xs) = Inr xs"
| "py_iter (JStr s) = Inr (map (\<lambda>c. JStr [c]) s)"
| "py_iter (JObj kv) = Inr (map (\<lambda>p. JStr (fst p)) kv)"
| "py_iter j = Inl (TypeError ''not iterable'')"

fun is_prefix :: "string \<Rightarrow> string \<Rightarrow> bool" where
  "is_prefix [] ys = True"
| "is_prefix (x # xs) [] = False"
| "is_prefix (x # xs) (y # ys) = (x = y \<and> is_prefix xs ys)"

text \<open>\<^verbatim>\<open>a in b\<close> on strings.\<close>

fun str_contains :: "string \<Rightarrow> string \<Rightarrow> bool" where
  "str_contains a [] = (a = [])"
| "str_contains a (y # ys) = (is_prefix a (y # ys) \<or> str_contains a ys)"

text \<open>\<^verbatim>\<open>k in j\<close> with a string \<open>k\<close>.\<close>

fun py_contains :: "string \<Rightarrow> json \<Rightarrow> exn + bool" where
  "py_contains k (JObj kv) = Inr (map_of kv k \<noteq> None)"
| "py_contains k (JArr xs) = Inr (List.member xs (JStr k))"
| "py_contains k (JStr s) = Inr (str_contains k s)"
| "py_contains k j = Inl (TypeError ''not iterable'')"

text \<open>A number passed to the geometry library; Python's \<^verbatim>\<open>bool\<close> is an \<^verbatim>\<open>int\<close>.\<close>

fun py_float :: "json \<Rightarrow> exn + real" where
  "py_float (JNum x) = Inr x"
| "py_float (JBool b) = Inr (if b then 1 else 0)"
| "py_float j = Inl (TypeError ''a number is required'')"

text \<open>The key under which a value sits in a Python \<^verbatim>\<open>set\<close>: lists and dicts are
  unhashable, and \<^verbatim>\<open>True == 1\<close>.\<close>

fun py_hash_key :: "json \<Rightarrow> exn + json" where
  "py_hash_key (JArr xs) = Inl (TypeError ''unhashable'')"
| "py_hash_key (JObj kv) = Inl (TypeError ''unhashable'')"
| "py_hash_key (JBool b) = Inr (JNum (if b then 1 else 0))"
| "py_hash_key j = Inr j"

text \<open>\<^verbatim>\<open>str(n)\<close> / \<^verbatim>\<open>'{}'.format(n)\<close> for an integer.\<close>

definition digit_char :: "nat \<Rightarrow> char" where
  "digit_char d = (''0123456789'' ! d)"

fun str_nat :: "nat \<Rightarrow> string" where
  "str_nat n = (if n < 10 then [digit_char n] else str_nat (n div 10) @ [digit_char (n mod 10)])"

definition str_int :: "int \<Rightarrow> string" where
  "str_int i = (if i < 0 then CHR ''-'' # str_nat (nat (- i)) else str_nat (nat i))"

text \<open>\<^verbatim>\<open>'{}'.format(v)\<close>. Only strings, \<^verbatim>\<open>None\<close>, booleans and whole numbers are
  rendered; the text Python prints for other values plays no part below.\<close>

fun py_str :: "json \<Rightarrow> string" where
  "py_str (JStr s) = s"
| "py_str JNull = ''None''"
| "py_str (JBool b) = (if b then ''True'' else ''False'')"
| "py_str (JNum x) = (if x = of_int \<lfloor>x\<rfloor> then str_int \<lfloor>x\<rfloor> else ''<float>'')"
| "py_str (JArr xs) = ''<list>''"
| "py_str (JObj kv) = ''<dict>''"

text \<open>\<^verbatim>\<open>n >= m\<close> for \<open>n\<close> a length and \<open>m\<close> a value read from JSON.\<close>

fun py_ge :: "nat \<Rightarrow> json \<Rightarrow> exn + bool" where
  "py_ge n (JNum m) = Inr (real n \<ge> m)"
| "py_ge n (JBool b) = Inr (real n \<ge> (if b then 1 else 0))"
| "py_ge n j = Inl (TypeError ''>='')"

section \<open>The world outside the program\<close>

record bbox =
  xmin :: real
  ymin :: real
  xmax :: real
  ymax :: real

datatype qval = QStr string | QInt int | QFloats "real list"

record request =
  req_url :: string
  req_params :: "(string \<times> qval) list"
  req_headers :: "(string \<times> string) list"
  req_stream :: bool

text \<open>A response of the \<^verbatim>\<open>requests\<close> library. \<open>json_body\<close> is what \<^verbatim>\<open>.json()\<close>
  returns, \<open>None\<close> when the body does not parse; \<open>headers\<close> is keyed by lower-case
  header names.\<close>

record response =
  status_code :: int
  resp_text :: string
  json_body :: "json option"
  headers :: "string \<rightharpoonup> string"
  content :: string

datatype geometry =
    Point real real
  | MultiPoint "(real \<times> real) list"
  | Polygon "(real \<times> real) list list"
  | MultiLineString "(real \<times> real) list list"

record parsed_url =
  scheme :: string
  netloc :: string
  path :: string
  params :: string
  query :: string
  fragment :: string

text \<open>
  Everything the program calls but does not define is a parameter: the remote servers
  (\<open>http e n rq\<close> answers the \<open>n\<close>-th request of the run, \<open>Inl\<close> a transport failure),
  the geometry library, the arithmetic of floats (\<open>float_add\<close>, \<open>float_div\<close>,
  \<open>py_round\<close>), the standard library's URL parser, MIME table, regular expression
  and digests, the \<^verbatim>\<open>file\<close> command, the text a CSV writer produces for a header and
  rows, and the three column names that \<^verbatim>\<open>openaddr/conform.py\<close> declares.
\<close>

record env =
  http :: "nat \<Rightarrow> request \<Rightarrow> string + response"
  Centroid :: "geometry \<Rightarrow> exn + real \<times> real"
  GetEnvelope :: "geometry \<Rightarrow> real \<times> real \<times> real \<times> real"
  ExportToWkt :: "geometry \<Rightarrow> string"
  Transform :: "json \<Rightarrow> geometry \<Rightarrow> exn + geometry"
  py_round :: "real \<Rightarrow> nat \<Rightarrow> real"
  float_add :: "real \<Rightarrow> real \<Rightarrow> real"
  float_div :: "real \<Rightarrow> real \<Rightarrow> real"
  X_FIELDNAME :: string
  Y_FIELDNAME :: string
  GEOM_FIELDNAME :: string
  recursion_limit :: nat
  urlparse :: "string \<Rightarrow> parsed_url"
  abspath :: "string \<Rightarrow> string"
  guess_extension :: "string \<Rightarrow> string option"
  attachment_filename :: "string \<Rightarrow> string option"
  file_mime_type :: "string \<Rightarrow> string"
  md5_hexdigest :: "string \<Rightarrow> string"
  csv_text :: "json list \<Rightarrow> json list \<Rightarrow> string"
  sha1_hexdigest :: "string \<Rightarrow> string"

text \<open>The state the program changes: the filesystem, the requests sent so far, the
  seconds slept, and the tiles printed on standard output (feature count and box).\<close>

record world =
  files :: "string \<rightharpoonup> string"
  dirs :: "string set"
  sent :: "request list"
  slept :: "real list"
  printed :: "(nat \<times> bbox) list"

definition requests_get :: "env \<Rightarrow> request \<Rightarrow> world \<Rightarrow> (exn + response) \<times> world" where
  "requests_get e rq w =
     (case http e (length (sent w)) rq of
        Inl m \<Rightarrow> (Inl (RequestException m), w\<lparr>sent := sent w @ [rq]\<rparr>)
      | Inr r \<Rightarrow> (Inr r, w\<lparr>sent := sent w @ [rq]\<rparr>))"

definition time_sleep :: "real \<Rightarrow> world \<Rightarrow> world" where
  "time_sleep s w = w\<lparr>slept := slept w @ [s]\<rparr>"

definition response_json :: "response \<Rightarrow> exn + json" where
  "response_json r =
     (case json_body r of None \<Rightarrow> Inl (ValueError ''No JSON object could be decoded'') | Some j \<Rightarrow> Inr j)"

definition USER_AGENT :: string where
  "USER_AGENT = ''openaddresses-extract/1.0 (https://github.com/openaddresses/openaddresses)''"

subsection \<open>Paths and the filesystem\<close>

text \<open>\<^verbatim>\<open>os.path.join\<close>, \<^verbatim>\<open>basename\<close> and \<^verbatim>\<open>dirname\<close> of \<^verbatim>\<open>posixpath\<close>.\<close>

definition path_join :: "string \<Rightarrow> string \<Rightarrow> string" where
  "path_join a b =
     (if b \<noteq> [] \<and> hd b = CHR ''/'' then b
      else if a = [] \<or> last a = CHR ''/'' then a @ b
      else a @ ''/'' @ b)"

definition basename :: "string \<Rightarrow> string" where
  "basename p = rev (takeWhile (\<lambda>c. c \<noteq> CHR ''/'') (rev p))"

definition dirname :: "string \<Rightarrow> string" where
  "dirname p =
     (let head = rev (dropWhile (\<lambda>c. c \<noteq> CHR ''/'') (rev p))
      in if head \<noteq> [] \<and> \<not> list_all (\<lambda>c. c = CHR ''/'') head
         then rev (dropWhile (\<lambda>c. c = CHR ''/'') (rev head)) else head)"

text \<open>The name a directory is recorded under: the path without its trailing slashes, of
  which the root keeps one. \<^verbatim>\<open>rstrip_sep\<close> is \<^verbatim>\<open>path.rstrip('/')\<close>.\<close>

definition rstrip_sep :: "string \<Rightarrow> string" where
  "rstrip_sep p = rev (dropWhile (\<lambda>c. c = CHR ''/'') (rev p))"

definition dir_entry :: "string \<Rightarrow> string" where
  "dir_entry p = (if rstrip_sep p = [] \<and> p \<noteq> [] then ''/'' else rstrip_sep p)"

text \<open>\<^verbatim>\<open>os.path.exists\<close>: the path is a file, or it names a directory, with or without
  trailing slashes.\<close>

definition path_exists :: "world \<Rightarrow> string \<Rightarrow> bool" where
  "path_exists w p = (files w p \<noteq> None \<or> p \<in> dirs w \<or> dir_entry p \<in> dirs w)"

text \<open>\<^verbatim>\<open>os.mkdir\<close>: the path must be new and its parent a directory; trailing slashes
  of the path are ignored.\<close>

definition mkdir :: "string \<Rightarrow> world \<Rightarrow> (exn + unit) \<times> world" where
  "mkdir p w =
     (if path_exists w p then (Inl (IOError ''File exists''), w)
      else if dirname (dir_entry p) \<notin> dirs w then (Inl (IOError ''No such file or directory''), w)
      else (Inr (), w\<lparr>dirs := insert (dir_entry p) (dirs w)\<rparr>))"

text \<open>The directories \<^verbatim>\<open>os.makedirs\<close> walks through: the path and its ancestors.\<close>

function ancestors :: "string \<Rightarrow> string list" where
  "ancestors p =
     (if dirname p = p \<or> length (dirname p) \<ge> length p then [p]
      else ancestors (dirname p) @ [p])"
  by pat_completeness auto
termination
  by (relation "measure length") auto

text \<open>\<^verbatim>\<open>mkdirsp\<close>: \<^verbatim>\<open>os.makedirs\<close>, where an existing directory is no error.\<close>

definition mkdirsp :: "string \<Rightarrow> world \<Rightarrow> (exn + unit) \<times> world" where
  "mkdirsp p w =
     (if list_ex (\<lambda>a. files w a \<noteq> None) (ancestors p) then (Inl (IOError ''Not a directory''), w)
      else (Inr (), w\<lparr>dirs := dirs w \<union> set (ancestors p)\<rparr>))"

text \<open>Opening a file for writing and writing \<open>c\<close> to it; the parent must be a
  directory.\<close>

definition open_write :: "string \<Rightarrow> string \<Rightarrow> world \<Rightarrow> (exn + unit) \<times> world" where
  "open_write p c w =
     (if p \<in> dirs w then (Inl (IOError ''Is a directory''), w)
      else if dirname p \<notin> dirs w then (Inl (IOError ''No such file or directory''), w)
      else (Inr (), w\<lparr>files := (files w)(p \<mapsto> c)\<rparr>))"

definition open_read :: "string \<Rightarrow> world \<Rightarrow> exn + string" where
  "open_read p w =
     (case files w p of
        None \<Rightarrow> Inl (IOError (if p \<in> dirs w then ''Is a directory'' else ''No such file or directory''))
      | Some c \<Rightarrow> Inr c)"

text \<open>\<^verbatim>\<open>shutil.move\<close> of a file. A destination that is a directory receives the file
  under the source's basename, unless something of that name is there already; any other
  destination is the new path of the file, whose parent must be a directory. The move is a
  rename, after which the source path is gone.\<close>

definition move :: "string \<Rightarrow> string \<Rightarrow> world \<Rightarrow> (exn + unit) \<times> world" where
  "move src dst w =
     (case files w src of
        None \<Rightarrow> (Inl (IOError ''No such file or directory''), w)
      | Some c \<Rightarrow>
          (let real_dst = (if dst \<in> dirs w then path_join dst (basename (rstrip_sep src)) else dst)
           in if dst \<in> dirs w \<and> path_exists w real_dst
              then (Inl (ShutilError ''Destination path already exists''), w)
              else if dirname real_dst \<notin> dirs w then (Inl (IOError ''No such file or directory''), w)
              else (Inr (), w\<lparr>files := ((files w)(src := None))(real_dst \<mapsto> c)\<rparr>)))"

text \<open>\<^verbatim>\<open>shutil.copy\<close> of a file to a file path.\<close>

definition copy :: "string \<Rightarrow> string \<Rightarrow> world \<Rightarrow> (exn + unit) \<times> world" where
  "copy src dst w =
     (case files w src of
        None \<Rightarrow> (Inl (IOError ''No such file or directory''), w)
      | Some c \<Rightarrow> open_write dst c w)"

section \<open>EsriRestDownloadTask\<close>

subsection \<open>build_ogr_geometry\<close>

definition read_point :: "json \<Rightarrow> exn + real \<times> real" where
  "read_point p =
     ebind (py_at p 0) (\<lambda>a. ebind (py_at p 1) (\<lambda>b.
     ebind (py_float a) (\<lambda>x. ebind (py_float b) (\<lambda>y. Inr (x, y)))))"

definition read_points :: "json \<Rightarrow> exn + (real \<times> real) list" where
  "read_points ps = ebind (py_iter ps) (emap read_point)"

definition read_lines :: "json \<Rightarrow> exn + (real \<times> real) list list" where
  "read_lines rs = ebind (py_iter rs) (emap read_points)"

definition build_ogr_geometry :: "json \<Rightarrow> json \<Rightarrow> exn + geometry" where
  "build_ogr_geometry geom_type esri_feature =
     ebind (py_contains ''geometry'' esri_feature) (\<lambda>has.
       if \<not> has then Inl (TypeError ''No geometry for feature'')
       else if geom_type = JStr ''esriGeometryPoint'' then
         ebind (py_item esri_feature ''geometry'') (\<lambda>g1. ebind (py_item g1 ''x'') (\<lambda>a.
         ebind (py_item esri_feature ''geometry'') (\<lambda>g2. ebind (py_item g2 ''y'') (\<lambda>b.
         ebind (py_float a) (\<lambda>x. ebind (py_float b) (\<lambda>y. Inr (Point x y)))))))
       else if geom_type = JStr ''esriGeometryMultipoint'' then
         ebind (py_item esri_feature ''geometry'') (\<lambda>g. ebind (py_item g ''points'') (\<lambda>ps.
         ebind (read_points ps) (\<lambda>pts. Inr (MultiPoint pts))))
       else if geom_type = JStr ''esriGeometryPolygon'' then
         ebind (py_item esri_feature ''geometry'') (\<lambda>g. ebind (py_item g ''rings'') (\<lambda>rs.
         ebind (read_lines rs) (\<lambda>rings. Inr (Polygon rings))))
       else if geom_type = JStr ''esriGeometryPolyline'' then
         ebind (py_item esri_feature ''geometry'') (\<lambda>g. ebind (py_item g ''paths'') (\<lambda>rs.
         ebind (read_lines rs) (\<lambda>lines. Inr (MultiLineString lines))))
       else Inl (KeyError (''Don't know how to convert esri geometry type '' @ py_str geom_type)))"

subsection \<open>get_bbox: the recursive spatial query\<close>

text \<open>The variables of \<^verbatim>\<open>download\<close> that the nested \<^verbatim>\<open>get_bbox\<close> closes over.\<close>

record ctx =
  source_url :: string
  objectid_fieldname :: json
  max_record_count :: json

definition query_request :: "ctx \<Rightarrow> bbox \<Rightarrow> request" where
  "query_request c b =
     \<lparr>req_url = source_url c @ ''/query'',
      req_params =
        [(''f'', QStr ''json''),
         (''geometryType'', QStr ''esriGeometryEnvelope''),
         (''geometry'', QFloats [xmin b, ymin b, xmax b, ymax b]),
         (''geometryPrecision'', QInt 7),
         (''returnGeometry'', QStr ''true''),
         (''outSR'', QInt 4326),
         (''inSR'', QInt 4326),
         (''outFields'', QStr ''*'')],
      req_headers = [(''User-Agent'', USER_AGENT)],
      req_stream = False\<rparr>"

text \<open>The body of the \<^verbatim>\<open>try\<close> after the request has returned: the status check, then
  the inner \<^verbatim>\<open>try\<close> whose handler turns every exception, the \<^verbatim>\<open>DownloadError\<close> raised
  for an error payload included, into a \<^verbatim>\<open>DownloadError\<close>.\<close>

definition check_error_payload :: "response \<Rightarrow> exn + unit" where
  "check_error_payload r =
     ebind (response_json r) (\<lambda>j. ebind (py_get j ''error'' JNull) (\<lambda>error.
       if py_truthy error
       then ebind (py_item error ''message'') (\<lambda>m.
              Inl (DownloadError (''Problem querying ESRI dataset: '' @ py_str m) None))
       else Inr ()))"

definition check_tile_response :: "response \<Rightarrow> exn + unit" where
  "check_tile_response r =
     (if status_code r \<noteq> 200
      then Inl (DownloadError (''Could not retrieve data envelope: HTTP '' @ str_int (status_code r)
                   @ '' '' @ resp_text r) None)
      else (case check_error_payload r of
              Inl ex \<Rightarrow> Inl (DownloadError ''Problem parsing ESRI response'' (Some ex))
            | Inr u \<Rightarrow> Inr ()))"

text \<open>
  The \<^verbatim>\<open>while tries >= 0\<close> loop. \<open>tries\<close> is decremented once the request has returned; a
  transport exception is no \<^verbatim>\<open>DownloadError\<close> and leaves the function; a
  \<^verbatim>\<open>DownloadError\<close> is logged, the loop sleeps one second and goes on; \<^verbatim>\<open>break\<close> and the
  exhausted loop both fall through to the code after it with the last response.
\<close>

function query_loop ::
  "env \<Rightarrow> request \<Rightarrow> int \<Rightarrow> response option \<Rightarrow> world \<Rightarrow> (exn + response option) \<times> world" where
  "query_loop e rq tries resp w =
     (if tries \<ge> 0 then
        (case requests_get e rq w of
           (Inl ex, w1) \<Rightarrow> (Inl ex, w1)
         | (Inr r, w1) \<Rightarrow>
             (case check_tile_response r of
                Inr u \<Rightarrow> (Inr (Some r), w1)
              | Inl ex \<Rightarrow>
                  if is_DownloadError ex
                  then query_loop e rq (tries - 1) (Some r) (time_sleep 1 w1)
                  else (Inl ex, w1)))
      else (Inr resp, w))"
  by pat_completeness auto
termination
  by (relation "measure (\<lambda>(e, rq, tries, resp, w). nat (tries + 1))") auto

text \<open>The query of one tile: the loop, then the two reads of the response and the
  \<^verbatim>\<open>print\<close> of the tile with its feature count. Returns the geometry type and the
  features to iterate over, with their count.\<close>

definition query_tile ::
  "env \<Rightarrow> ctx \<Rightarrow> bbox \<Rightarrow> world \<Rightarrow> (exn + json \<times> json list \<times> nat) \<times> world" where
  "query_tile e c b w =
     (case query_loop e (query_request c b) 3 None w of
        (Inl ex, w1) \<Rightarrow> (Inl ex, w1)
      | (Inr None, w1) \<Rightarrow> (Inl (UnboundLocalError ''response''), w1)
      | (Inr (Some r), w1) \<Rightarrow>
          (case ebind (response_json r) (\<lambda>j1. ebind (py_get j1 ''geometryType'' JNull) (\<lambda>geometry_type.
                ebind (response_json r) (\<lambda>j2. ebind (py_get j2 ''features'' JNull) (\<lambda>features.
                ebind (py_len features) (\<lambda>n. Inr (geometry_type, features, n)))))) of
             Inl ex \<Rightarrow> (Inl ex, w1)
           | Inr (geometry_type, features, n) \<Rightarrow>
               (case py_iter features of
                  Inl ex \<Rightarrow> (Inl ex, w1\<lparr>printed := printed w1 @ [(n, b)]\<rparr>)
                | Inr fs \<Rightarrow> (Inr (geometry_type, fs, n), w1\<lparr>printed := printed w1 @ [(n, b)]\<rparr>))))"

definition LINEAR_RING_MESSAGE :: string where
  "LINEAR_RING_MESSAGE = ''Invalid number of points in LinearRing found''"

text \<open>The coordinates written into a row: the rounded centroid, or, when the centroid
  fails on a malformed ring, the rounded midpoint of the geometry's envelope.\<close>

definition row_coordinates :: "env \<Rightarrow> geometry \<Rightarrow> exn + real \<times> real" where
  "row_coordinates e g =
     (case Centroid e g of
        Inl (RuntimeError m) \<Rightarrow>
          if \<not> str_contains LINEAR_RING_MESSAGE m then Inl (RuntimeError m)
          else (case GetEnvelope e g of (x0, x1, y0, y1) \<Rightarrow>
                  Inr (py_round e (float_add e (float_div e x0 2) (float_div e x1 2)) 7,
                       py_round e (float_add e (float_div e y0 2) (float_div e y1 2)) 7))
      | Inl ex \<Rightarrow> Inl ex
      | Inr (cx, cy) \<Rightarrow> Inr (py_round e cx 7, py_round e cy 7))"

text \<open>One pass of the loop over the features of a tile: \<open>None\<close> when the feature is
  skipped by \<^verbatim>\<open>continue\<close>, else the row to append; with the identifiers seen.\<close>

definition retain_feature ::
  "env \<Rightarrow> ctx \<Rightarrow> json \<Rightarrow> json \<Rightarrow> json set \<Rightarrow> exn + json option \<times> json set" where
  "retain_feature e c geometry_type feature fetched_ids =
     ebind (py_get feature ''attributes'' (JObj [])) (\<lambda>row.
     ebind (py_item_j row (objectid_fieldname c)) (\<lambda>oid.
     ebind (py_hash_key oid) (\<lambda>k.
       if k \<in> fetched_ids then Inr (None, fetched_ids)
       else
         ebind (build_ogr_geometry geometry_type feature) (\<lambda>ogr_geom.
         ebind (row_coordinates e ogr_geom) (\<lambda>(x, y).
         ebind (py_setitem row (X_FIELDNAME e) (JNum x)) (\<lambda>row1.
         ebind (py_setitem row1 (Y_FIELDNAME e) (JNum y)) (\<lambda>row2.
         ebind (py_item_j row2 (objectid_fieldname c)) (\<lambda>oid2.
         ebind (py_hash_key oid2) (\<lambda>k2.
           Inr (Some row2, insert k2 fetched_ids))))))))))"

fun retain_features ::
  "env \<Rightarrow> ctx \<Rightarrow> json \<Rightarrow> json list \<Rightarrow> json set \<Rightarrow> json list \<Rightarrow> exn + json list \<times> json set" where
  "retain_features e c gt [] fetched_ids returned_data = Inr (returned_data, fetched_ids)"
| "retain_features e c gt (feature # fs) fetched_ids returned_data =
     (case retain_feature e c gt feature fetched_ids of
        Inl ex \<Rightarrow> Inl ex
      | Inr (None, ids) \<Rightarrow> retain_features e c gt fs ids returned_data
      | Inr (Some row, ids) \<Rightarrow> retain_features e c gt fs ids (returned_data @ [row]))"

text \<open>\<^verbatim>\<open>float(sum(f[k] for f in returned_data)) / len(returned_data)\<close>: \<^verbatim>\<open>sum\<close> adds
  the values from the left, starting at 0, and the quotient is a division of floats.\<close>

definition mean_of :: "env \<Rightarrow> string \<Rightarrow> json list \<Rightarrow> exn + real" where
  "mean_of e k returned_data =
     ebind (emap (\<lambda>f. ebind (py_item f k) py_float) returned_data) (\<lambda>vs.
       if length returned_data = 0 then Inl (ZeroDivisionError ''float division by zero'')
       else Inr (float_div e (foldl (float_add e) 0 vs) (real (length returned_data))))"

text \<open>The four quadrants of a box around a pivot, in the order the code queries them.\<close>

definition quadrants :: "bbox \<Rightarrow> real \<Rightarrow> real \<Rightarrow> bbox \<times> bbox \<times> bbox \<times> bbox" where
  "quadrants b mean_x mean_y =
     (\<lparr>xmin = xmin b, ymin = ymin b, xmax = mean_x, ymax = mean_y\<rparr>,
      \<lparr>xmin = mean_x, ymin = ymin b, xmax = xmax b, ymax = mean_y\<rparr>,
      \<lparr>xmin = xmin b, ymin = mean_y, xmax = mean_x, ymax = ymax b\<rparr>,
      \<lparr>xmin = mean_x, ymin = mean_y, xmax = xmax b, ymax = ymax b\<rparr>)"

text \<open>
  \<^verbatim>\<open>get_bbox(fetched_ids, bbox)\<close>. The first argument is the recursion depth Python still
  allows: at depth zero the call raises. The set \<^verbatim>\<open>fetched_ids\<close>, shared by reference in
  the source, is passed in and returned.
\<close>

fun get_bbox ::
  "nat \<Rightarrow> env \<Rightarrow> ctx \<Rightarrow> json set \<Rightarrow> bbox \<Rightarrow> world \<Rightarrow> (exn + json list \<times> json set) \<times> world" where
  "get_bbox 0 e c fetched_ids b w = (Inl (RecursionError ''maximum recursion depth exceeded''), w)"
| "get_bbox (Suc d) e c fetched_ids b w =
     (case query_tile e c b w of
        (Inl ex, w1) \<Rightarrow> (Inl ex, w1)
      | (Inr (geometry_type, features, n), w1) \<Rightarrow>
     (case retain_features e c geometry_type features fetched_ids [] of
        Inl ex \<Rightarrow> (Inl ex, w1)
      | Inr (returned_data, ids1) \<Rightarrow>
     (case py_ge n (max_record_count c) of
        Inl ex \<Rightarrow> (Inl ex, w1)
      | Inr ge \<Rightarrow>
     if \<not> ge then (Inr (returned_data, ids1), w1)
     else
     (case mean_of e (X_FIELDNAME e) returned_data of
        Inl ex \<Rightarrow> (Inl ex, w1)
      | Inr mean_x \<Rightarrow>
     (case mean_of e (Y_FIELDNAME e) returned_data of
        Inl ex \<Rightarrow> (Inl ex, w1)
      | Inr mean_y \<Rightarrow>
     (case quadrants b mean_x mean_y of (q1, q2, q3, q4) \<Rightarrow>
     (case get_bbox d e c ids1 q1 w1 of
        (Inl ex, w2) \<Rightarrow> (Inl ex, w2)
      | (Inr (r1, ids2), w2) \<Rightarrow>
     (case get_bbox d e c ids2 q2 w2 of
        (Inl ex, w3) \<Rightarrow> (Inl ex, w3)
      | (Inr (r2, ids3), w3) \<Rightarrow>
     (case get_bbox d e c ids3 q3 w3 of
        (Inl ex, w4) \<Rightarrow> (Inl ex, w4)
      | (Inr (r3, ids4), w4) \<Rightarrow>
     (case get_bbox d e c ids4 q4 w4 of
        (Inl ex, w5) \<Rightarrow> (Inl ex, w5)
      | (Inr (r4, ids5), w5) \<Rightarrow>
          (Inr (returned_data @ r1 @ r2 @ r3 @ r4, ids5), w5)))))))))))"

subsection \<open>The metadata phase of download\<close>

definition EsriRestDownloadTask_get_file_path ::
  "env \<Rightarrow> string option \<Rightarrow> string \<Rightarrow> string \<Rightarrow> string" where
  "EsriRestDownloadTask_get_file_path e source_prefix url dir_path =
     (let u = urlparse e url;
          hash = sha1_hexdigest e (netloc u @ path u);
          name_base =
            (case source_prefix of
               None \<Rightarrow> netloc u
             | Some p \<Rightarrow> if p = [] then netloc u else p) @ ''-'' @ take 8 hash
      in path_join dir_path (name_base @ ''.csv''))"

definition metadata_request :: "string \<Rightarrow> request" where
  "metadata_request url =
     \<lparr>req_url = url, req_params = [(''f'', QStr ''json'')],
      req_headers = [(''User-Agent'', USER_AGENT)], req_stream = False\<rparr>"

text \<open>The loop that looks for the field of type \<^verbatim>\<open>esriFieldTypeOID\<close>; \<open>JNull\<close> is the
  initial \<^verbatim>\<open>None\<close>.\<close>

fun find_objectid_fieldname :: "json list \<Rightarrow> exn + json" where
  "find_objectid_fieldname [] = Inr JNull"
| "find_objectid_fieldname (field # rest) =
     ebind (py_item field ''type'') (\<lambda>t.
       if t = JStr ''esriFieldTypeOID'' then py_item field ''name''
       else find_objectid_fieldname rest)"

definition append_absent :: "json list \<Rightarrow> string \<Rightarrow> json list" where
  "append_absent names k = (if JStr k \<in> set names then names else names @ [JStr k])"

definition extent_corner :: "json \<Rightarrow> string \<Rightarrow> string \<Rightarrow> exn + real \<times> real" where
  "extent_corner extent kx ky =
     ebind (py_item extent kx) (\<lambda>a. ebind (py_item extent ky) (\<lambda>b.
     ebind (py_float a) (\<lambda>x. ebind (py_float b) (\<lambda>y. Inr (x, y)))))"

text \<open>The ring of the declared extent, reprojected to EPSG:4326, and its envelope.\<close>

definition reproject_extent :: "env \<Rightarrow> json \<Rightarrow> exn + bbox" where
  "reproject_extent e extent =
     ebind (extent_corner extent ''xmin'' ''ymin'') (\<lambda>p1.
     ebind (extent_corner extent ''xmin'' ''ymax'') (\<lambda>p2.
     ebind (extent_corner extent ''xmax'' ''ymax'') (\<lambda>p3.
     ebind (extent_corner extent ''xmax'' ''ymin'') (\<lambda>p4.
     ebind (extent_corner extent ''xmin'' ''ymin'') (\<lambda>p5.
     ebind (py_item extent ''spatialReference'') (\<lambda>sr.
     ebind (py_item sr ''wkid'') (\<lambda>wkid.
     ebind (Transform e wkid (Polygon [[p1, p2, p3, p4, p5]])) (\<lambda>g.
       case GetEnvelope e g of (x0, x1, y0, y1) \<Rightarrow>
         Inr \<lparr>xmin = x0, ymin = y0, xmax = x1, ymax = y1\<rparr>))))))))"

record esri_layer =
  field_names :: "json list"
  layer_ctx :: ctx
  layer_geometry_type :: json
  layer_extent :: bbox

text \<open>Everything \<^verbatim>\<open>download\<close> does with the response of the layer root, from the status
  check to the reprojected extent.\<close>

definition read_metadata :: "env \<Rightarrow> string \<Rightarrow> response \<Rightarrow> exn + esri_layer" where
  "read_metadata e url r =
     (if status_code r \<noteq> 200
      then Inl (DownloadError (''Could not retrieve field names from ESRI source: HTTP ''
                  @ str_int (status_code r) @ '' '' @ resp_text r) None)
      else
        ebind (response_json r) (\<lambda>metadata.
        ebind (py_get metadata ''error'' JNull) (\<lambda>error.
        if py_truthy error
        then ebind (py_item error ''message'') (\<lambda>m.
               Inl (DownloadError (''Problem querying ESRI field names: '' @ py_str m) None))
        else
        ebind (py_get metadata ''fields'' JNull) (\<lambda>fields0.
        if \<not> py_truthy fields0 then Inl (DownloadError ''No fields available in the source'' None)
        else
        ebind (py_item metadata ''fields'') (\<lambda>fields1.
        ebind (py_iter fields1) (\<lambda>fs1.
        ebind (emap (\<lambda>f. py_item f ''name'') fs1) (\<lambda>names.
        ebind (py_item metadata ''fields'') (\<lambda>fields2.
        ebind (py_iter fields2) (\<lambda>fs2.
        ebind (find_objectid_fieldname fs2) (\<lambda>oid_name.
        if \<not> py_truthy oid_name then Inl (DownloadError ''Could not find objectid field name'' None)
        else
        ebind (py_get metadata ''geometryType'' JNull) (\<lambda>geometry_type.
        if \<not> py_truthy geometry_type then Inl (DownloadError ''Could not determine geometry type'' None)
        else
        ebind (py_get metadata ''maxRecordCount'' (JNum 500)) (\<lambda>max_count.
        ebind (py_get metadata ''extent'' JNull) (\<lambda>extent.
        ebind (reproject_extent e extent) (\<lambda>box.
          Inr \<lparr>field_names =
                 append_absent (append_absent (append_absent names (X_FIELDNAME e))
                   (Y_FIELDNAME e)) (GEOM_FIELDNAME e),
               layer_ctx = \<lparr>source_url = url, objectid_fieldname = oid_name,
                             max_record_count = max_count\<rparr>,
               layer_geometry_type = geometry_type,
               layer_extent = box\<rparr>))))))))))))))"

definition esri_metadata :: "env \<Rightarrow> string \<Rightarrow> world \<Rightarrow> (exn + esri_layer) \<times> world" where
  "esri_metadata e url w =
     (case requests_get e (metadata_request url) w of
        (Inl ex, w1) \<Rightarrow> (Inl ex, w1)
      | (Inr r, w1) \<Rightarrow> (read_metadata e url r, w1))"

subsection \<open>Writing the CSV\<close>

text \<open>\<^verbatim>\<open>writer.writerow(row)\<close>, the writer taken to be the standard \<^verbatim>\<open>csv.DictWriter\<close>:
  a key that is no field name is a \<^verbatim>\<open>ValueError\<close>.\<close>

fun writerow :: "json list \<Rightarrow> json \<Rightarrow> exn + json" where
  "writerow names (JObj kv) =
     (if list_all (\<lambda>p. JStr (fst p) \<in> set names) kv then Inr (JObj kv)
      else Inl (ValueError ''dict contains fields not in fieldnames''))"
| "writerow names j = Inl (AttributeError ''keys'')"

text \<open>The body of the \<^verbatim>\<open>try\<close> in the loop over \<^verbatim>\<open>fetched_data\<close>: the row written.\<close>

definition emit_row :: "env \<Rightarrow> json \<Rightarrow> json list \<Rightarrow> json \<Rightarrow> exn + json" where
  "emit_row e geometry_type names feature =
     ebind (build_ogr_geometry geometry_type feature) (\<lambda>ogr_geom.
     ebind (py_get feature ''attributes'' (JObj [])) (\<lambda>row.
     ebind (py_setitem row (GEOM_FIELDNAME e) (JStr (ExportToWkt e ogr_geom))) (\<lambda>row1.
     ebind (row_coordinates e ogr_geom) (\<lambda>(x, y).
     ebind (py_setitem row1 (X_FIELDNAME e) (JNum x)) (\<lambda>row2.
     ebind (py_setitem row2 (Y_FIELDNAME e) (JNum y)) (\<lambda>row3.
       writerow names row3))))))"

text \<open>The loop over \<^verbatim>\<open>fetched_data\<close>: a \<^verbatim>\<open>TypeError\<close> skips the entry, any other
  exception leaves the loop. The rows written so far and their count are the state.\<close>

fun emit_rows ::
  "env \<Rightarrow> json \<Rightarrow> json list \<Rightarrow> json list \<Rightarrow> json list \<times> nat \<Rightarrow> (exn + unit) \<times> json list \<times> nat" where
  "emit_rows e gt names [] (rows, count) = (Inr (), rows, count)"
| "emit_rows e gt names (feature # fs) (rows, count) =
     (case emit_row e gt names feature of
        Inr row \<Rightarrow> emit_rows e gt names fs (rows @ [row], count + 1)
      | Inl ex \<Rightarrow>
          if is_TypeError ex then emit_rows e gt names fs (rows, count)
          else (Inl ex, rows, count))"

subsection \<open>download\<close>

text \<open>One pass of the loop over \<^verbatim>\<open>source_urls\<close>: the path appended to
  \<^verbatim>\<open>output_files\<close>.\<close>

definition esri_download_url ::
  "env \<Rightarrow> string option \<Rightarrow> string \<Rightarrow> string \<Rightarrow> world \<Rightarrow> (exn + string) \<times> world" where
  "esri_download_url e source_prefix download_path url w =
     (let file_path = EsriRestDownloadTask_get_file_path e source_prefix url download_path in
      if path_exists w file_path then (Inr file_path, w)
      else
      (case esri_metadata e url w of
         (Inl ex, w1) \<Rightarrow> (Inl ex, w1)
       | (Inr layer, w1) \<Rightarrow>
      (case open_write file_path (csv_text e (field_names layer) []) w1 of
         (Inl ex, w2) \<Rightarrow> (Inl ex, w2)
       | (Inr u, w2) \<Rightarrow>
      (case get_bbox (recursion_limit e) e (layer_ctx layer) {} (layer_extent layer) w2 of
         (Inl ex, w3) \<Rightarrow> (Inl ex, w3)
       | (Inr (fetched_data, ids), w3) \<Rightarrow>
      (case emit_rows e (layer_geometry_type layer) (field_names layer) fetched_data ([], 0) of
         (res, rows, count) \<Rightarrow>
           (case res of Inl ex \<Rightarrow> Inl ex | Inr u \<Rightarrow> Inr file_path,
            w3\<lparr>files := (files w3)(file_path \<mapsto> csv_text e (field_names layer) rows)\<rparr>))))))"

fun esri_download_urls ::
  "env \<Rightarrow> string option \<Rightarrow> string \<Rightarrow> string list \<Rightarrow> string list \<Rightarrow> world
     \<Rightarrow> (exn + string list) \<times> world" where
  "esri_download_urls e source_prefix download_path [] output_files w = (Inr output_files, w)"
| "esri_download_urls e source_prefix download_path (url # urls) output_files w =
     (case esri_download_url e source_prefix download_path url w of
        (Inl ex, w1) \<Rightarrow> (Inl ex, w1)
      | (Inr file_path, w1) \<Rightarrow>
          esri_download_urls e source_prefix download_path urls (output_files @ [file_path]) w1)"

definition EsriRestDownloadTask_download ::
  "env \<Rightarrow> string option \<Rightarrow> string list \<Rightarrow> string \<Rightarrow> world \<Rightarrow> (exn + string list) \<times> world" where
  "EsriRestDownloadTask_download e source_prefix source_urls workdir w =
     (let download_path = path_join workdir ''esri'' in
      case mkdirsp download_path w of
        (Inl ex, w1) \<Rightarrow> (Inl ex, w1)
      | (Inr u, w1) \<Rightarrow> esri_download_urls e source_prefix download_path source_urls [] w1)"

section \<open>The extension resolver\<close>

text \<open>\<^verbatim>\<open>os.path.splitext\<close>: the extension starts at the last dot of the last path
  component, unless only dots precede it there.\<close>

definition splitext :: "string \<Rightarrow> string \<times> string" where
  "splitext p =
     (let name = basename p;
          ext_rev = takeWhile (\<lambda>c. c \<noteq> CHR ''.'') (rev name);
          stem = take (length name - length ext_rev - 1) name;
          ext = (if CHR ''.'' \<notin> set name \<or> list_all (\<lambda>c. c = CHR ''.'') stem then []
                 else CHR ''.'' # rev ext_rev)
      in (take (length p - length ext) p, ext))"

definition bad_extensions :: "string list" where
  "bad_extensions = [[], ''.cgi'', ''.php'', ''.aspx'', ''.asp'', ''.do'']"

text \<open>\<^verbatim>\<open>get_content_mimetype\<close>: what the \<^verbatim>\<open>file\<close> command says of a chunk written to a
  temporary file, which is removed again.\<close>

definition get_content_mimetype :: "env \<Rightarrow> string \<Rightarrow> string" where
  "get_content_mimetype e chunk = file_mime_type e chunk"

text \<open>The first 99 bytes and the headers, by scheme. \<^verbatim>\<open>next\<close> on the chunks of an empty
  body raises \<^verbatim>\<open>StopIteration\<close>.\<close>

definition peek_url ::
  "env \<Rightarrow> string \<Rightarrow> parsed_url \<Rightarrow> world \<Rightarrow> (exn + (string \<rightharpoonup> string) \<times> string) \<times> world" where
  "peek_url e url u w =
     (if scheme u = ''http'' \<or> scheme u = ''https'' then
        (case requests_get e \<lparr>req_url = url, req_params = [], req_headers = [], req_stream = True\<rparr> w of
           (Inl ex, w1) \<Rightarrow> (Inl ex, w1)
         | (Inr r, w1) \<Rightarrow>
             if content r = [] then (Inl StopIteration, w1)
             else (Inr (headers r, take 99 (content r)), w1))
      else if scheme u = ''file'' \<or> scheme u = [] then
        (case open_read (path u) w of
           Inl ex \<Rightarrow> (Inl ex, w)
         | Inr c \<Rightarrow> (Inr (Map.empty, take 99 c), w))
      else (Inl (ValueError (''Unknown scheme '' @ [CHR 0x22] @ scheme u @ [CHR 0x22] @ '': '' @ url)), w))"

text \<open>The extension the headers give: \<open>None\<close> stands for Python's \<^verbatim>\<open>False\<close> and
  \<^verbatim>\<open>None\<close> alike.\<close>

definition header_extension :: "env \<Rightarrow> (string \<rightharpoonup> string) \<Rightarrow> string option" where
  "header_extension e hs =
     (case hs ''content-type'' of
        None \<Rightarrow> None
      | Some ct \<Rightarrow>
          (let path_ext = guess_extension e (takeWhile (\<lambda>c. c \<noteq> CHR '';'') ct) in
           case hs ''content-disposition'' of
             None \<Rightarrow> path_ext
           | Some cd \<Rightarrow>
               (case attachment_filename e cd of
                  None \<Rightarrow> path_ext
                | Some filename \<Rightarrow>
                    if path_ext = Some (snd (splitext filename)) then path_ext else None)))"

definition guess_url_file_extension ::
  "env \<Rightarrow> string \<Rightarrow> world \<Rightarrow> (exn + string option) \<times> world" where
  "guess_url_file_extension e url w =
     (let u = urlparse e url;
          likely_ext = snd (splitext (path u))
      in if query u = [] \<and> likely_ext \<notin> set bad_extensions then (Inr (Some likely_ext), w)
         else
           (case peek_url e url u w of
              (Inl ex, w1) \<Rightarrow> (Inl ex, w1)
            | (Inr (hs, content_chunk), w1) \<Rightarrow>
                (case header_extension e hs of
                   Some ext \<Rightarrow>
                     if ext \<noteq> [] then (Inr (Some ext), w1)
                     else (Inr (guess_extension e (get_content_mimetype e content_chunk)), w1)
                 | None \<Rightarrow> (Inr (guess_extension e (get_content_mimetype e content_chunk)), w1))))"

section \<open>URLDownloadTask\<close>

definition URLDownloadTask_get_file_path ::
  "env \<Rightarrow> string option \<Rightarrow> string \<Rightarrow> string \<Rightarrow> world \<Rightarrow> (exn + string) \<times> world" where
  "URLDownloadTask_get_file_path e source_prefix url dir_path w =
     (let u = urlparse e url;
          path_base = fst (splitext (path u));
          name_base =
            (case source_prefix of
               None \<Rightarrow> basename path_base
             | Some p \<Rightarrow> p @ ''-'' @ take 8 (sha1_hexdigest e (netloc u @ path_base)))
      in case guess_url_file_extension e url w of
           (Inl ex, w1) \<Rightarrow> (Inl ex, w1)
         | (Inr None, w1) \<Rightarrow> (Inl (TypeError ''cannot concatenate str and NoneType''), w1)
         | (Inr (Some path_ext), w1) \<Rightarrow> (Inr (path_join dir_path (name_base @ path_ext)), w1))"

definition download_request :: "string \<Rightarrow> request" where
  "download_request url =
     \<lparr>req_url = url, req_params = [], req_headers = [(''User-Agent'', USER_AGENT)], req_stream = True\<rparr>"

text \<open>One pass of the loop over \<^verbatim>\<open>source_urls\<close>: the path appended to
  \<^verbatim>\<open>output_files\<close>. \<^verbatim>\<open>range(400, 499)\<close> holds 400 up to 498.\<close>

definition url_download_url ::
  "env \<Rightarrow> string option \<Rightarrow> string \<Rightarrow> string \<Rightarrow> world \<Rightarrow> (exn + string) \<times> world" where
  "url_download_url e source_prefix download_path url w =
     (case URLDownloadTask_get_file_path e source_prefix url download_path w of
        (Inl ex, w1) \<Rightarrow> (Inl ex, w1)
      | (Inr file_path, w1) \<Rightarrow>
     (case (if scheme (urlparse e url) = ''file'' then copy (path (urlparse e url)) file_path w1
            else (Inr (), w1)) of
        (Inl ex, w2) \<Rightarrow> (Inl ex, w2)
      | (Inr u, w2) \<Rightarrow>
     if path_exists w2 file_path then (Inr file_path, w2)
     else
     (case requests_get e (download_request url) w2 of
        (Inl ex, w3) \<Rightarrow> (Inl (DownloadError ''Could not connect to URL'' (Some ex)), w3)
      | (Inr resp, w3) \<Rightarrow>
     if 400 \<le> status_code resp \<and> status_code resp < 499
     then (Inl (DownloadError (str_int (status_code resp) @ '' response from '' @ url) None), w3)
     else
     (case open_write file_path (content resp) w3 of
        (Inl ex, w4) \<Rightarrow> (Inl ex, w4)
      | (Inr u, w4) \<Rightarrow> (Inr file_path, w4)))))"

fun url_download_urls ::
  "env \<Rightarrow> string option \<Rightarrow> string \<Rightarrow> string list \<Rightarrow> string list \<Rightarrow> world
     \<Rightarrow> (exn + string list) \<times> world" where
  "url_download_urls e source_prefix download_path [] output_files w = (Inr output_files, w)"
| "url_download_urls e source_prefix download_path (url # urls) output_files w =
     (case url_download_url e source_prefix download_path url w of
        (Inl ex, w1) \<Rightarrow> (Inl ex, w1)
      | (Inr file_path, w1) \<Rightarrow>
          url_download_urls e source_prefix download_path urls (output_files @ [file_path]) w1)"

definition URLDownloadTask_download ::
  "env \<Rightarrow> string option \<Rightarrow> string list \<Rightarrow> string \<Rightarrow> world \<Rightarrow> (exn + string list) \<times> world" where
  "URLDownloadTask_download e source_prefix source_urls workdir w =
     (let download_path = path_join workdir ''http'' in
      case mkdirsp download_path w of
        (Inl ex, w1) \<Rightarrow> (Inl ex, w1)
      | (Inr u, w1) \<Rightarrow> url_download_urls e source_prefix download_path source_urls [] w1)"

section \<open>compare_cache_details\<close>

text \<open>\<open>data\<close> is the declared source data, of which the function reads the strings
  under \<^verbatim>\<open>cache\<close> and \<^verbatim>\<open>fingerprint\<close>.\<close>

text \<open>The two nested conditions under which nothing needs to be done: the declared cache
  has scheme \<^verbatim>\<open>http\<close>, a fingerprint is declared, and it is the one just computed.\<close>

definition known_cache :: "env \<Rightarrow> (string \<rightharpoonup> string) \<Rightarrow> string \<Rightarrow> bool" where
  "known_cache e data fingerprint \<longleftrightarrow>
     scheme (urlparse e (case data ''cache'' of None \<Rightarrow> [] | Some c \<Rightarrow> c)) = ''http''
     \<and> data ''fingerprint'' \<noteq> None
     \<and> Some fingerprint = data ''fingerprint''"

definition compare_cache_details ::
  "env \<Rightarrow> string \<Rightarrow> string \<Rightarrow> (string \<rightharpoonup> string) \<Rightarrow> world \<Rightarrow> (exn + string \<times> string) \<times> world" where
  "compare_cache_details e filepath resultdir data w =
     (if \<not> path_exists w filepath
      then (Inl (Exception (''cached file '' @ filepath @ '' is missing'')), w)
      else
      (case open_read filepath w of
         Inl ex \<Rightarrow> (Inl ex, w)
       | Inr bytes \<Rightarrow>
      (let fingerprint = md5_hexdigest e bytes
       in if known_cache e data fingerprint then
            (case (data ''cache'', data ''fingerprint'') of
               (Some c, Some f) \<Rightarrow> (Inr (c, f), w)
             | _ \<Rightarrow> (Inl (KeyError ''cache''), w))
          else
          (let cache_name = basename filepath in
           case (if \<not> path_exists w resultdir then mkdir resultdir w else (Inr (), w)) of
             (Inl ex, w1) \<Rightarrow> (Inl ex, w1)
           | (Inr u, w1) \<Rightarrow>
          (case move filepath (path_join resultdir cache_name) w1 of
             (Inl ex, w2) \<Rightarrow> (Inl ex, w2)
           | (Inr u, w2) \<Rightarrow>
               (Inr (''file://'' @ path_join (abspath e resultdir) cache_name, fingerprint), w2))))))"

section \<open>A sample environment\<close>

text \<open>
  Concrete stand-ins for the libraries, on which the theorems below are exercised. The
  centroid of a polygon with a ring of fewer than four points fails with the message of
  the geometry library; sums and quotients are exact and rounding is to the nearest
  multiple of \<open>10\<^sup>-\<^sup>n\<close>; the URL
  parser knows the URLs the examples use and takes anything else for a bare path.
\<close>

definition geometry_points :: "geometry \<Rightarrow> (real \<times> real) list" where
  "geometry_points g =
     (case g of
        Point x y \<Rightarrow> [(x, y)]
      | MultiPoint ps \<Rightarrow> ps
      | Polygon rs \<Rightarrow> concat rs
      | MultiLineString ls \<Rightarrow> concat ls)"

definition sample_GetEnvelope :: "geometry \<Rightarrow> real \<times> real \<times> real \<times> real" where
  "sample_GetEnvelope g =
     (case geometry_points g of
        [] \<Rightarrow> (0, 0, 0, 0)
      | p # ps \<Rightarrow>
          (fold min (map fst ps) (fst p), fold max (map fst ps) (fst p),
           fold min (map snd ps) (snd p), fold max (map snd ps) (snd p)))"

definition sample_Centroid :: "geometry \<Rightarrow> exn + real \<times> real" where
  "sample_Centroid g =
     (case g of
        Point x y \<Rightarrow> Inr (x, y)
      | Polygon rs \<Rightarrow>
          if list_ex (\<lambda>r. length r < 4) rs
          then Inl (RuntimeError ''Invalid number of points in LinearRing found 3 - must be 0 or >= 4'')
          else (case sample_GetEnvelope g of (x0, x1, y0, y1) \<Rightarrow> Inr ((x0 + x1) / 2, (y0 + y1) / 2))
      | _ \<Rightarrow> (case sample_GetEnvelope g of (x0, x1, y0, y1) \<Rightarrow> Inr ((x0 + x1) / 2, (y0 + y1) / 2)))"

definition sample_round :: "real \<Rightarrow> nat \<Rightarrow> real" where
  "sample_round x n = of_int \<lfloor>x * 10 ^ n + 1 / 2\<rfloor> / 10 ^ n"

definition sample_urlparse :: "string \<Rightarrow> parsed_url" where
  "sample_urlparse url =
     (if url = ''ftp://example.com/data.zip'' then
        \<lparr>scheme = ''ftp'', netloc = ''example.com'', path = ''/data.zip'', params = [], query = [], fragment = []\<rparr>
      else if url = ''http://example.com/data.zip'' then
        \<lparr>scheme = ''http'', netloc = ''example.com'', path = ''/data.zip'', params = [], query = [], fragment = []\<rparr>
      else if url = ''gopher://example.com/list.php'' then
        \<lparr>scheme = ''gopher'', netloc = ''example.com'', path = ''/list.php'', params = [], query = [], fragment = []\<rparr>
      else if url = ''http://example.com/arcgis/rest/services/addresses/MapServer/0'' then
        \<lparr>scheme = ''http'', netloc = ''example.com'', path = ''/arcgis/rest/services/addresses/MapServer/0'',
         params = [], query = [], fragment = []\<rparr>
      else if url = ''http://data.example.com/cache/data.zip'' then
        \<lparr>scheme = ''http'', netloc = ''data.example.com'', path = ''/cache/data.zip'', params = [], query = [], fragment = []\<rparr>
      else \<lparr>scheme = [], netloc = [], path = url, params = [], query = [], fragment = []\<rparr>)"

definition sample_guess_extension :: "string \<Rightarrow> string option" where
  "sample_guess_extension mime =
     (if mime = ''text/csv'' then Some ''.csv''
      else if mime = ''application/zip'' \<or> mime = ''application/x-zip-compressed'' then Some ''.zip''
      else if mime = ''text/plain'' then Some ''.txt''
      else None)"

definition sample_env :: "(nat \<Rightarrow> request \<Rightarrow> string + response) \<Rightarrow> env" where
  "sample_env server =
     \<lparr>http = server,
      Centroid = sample_Centroid,
      GetEnvelope = sample_GetEnvelope,
      ExportToWkt = (\<lambda>g. ''GEOMETRY''),
      Transform = (\<lambda>wkid g. Inr g),
      py_round = sample_round,
      float_add = (+),
      float_div = (/),
      X_FIELDNAME = ''X'',
      Y_FIELDNAME = ''Y'',
      GEOM_FIELDNAME = ''GEOM'',
      recursion_limit = 1000,
      urlparse = sample_urlparse,
      abspath = (\<lambda>p. p),
      guess_extension = sample_guess_extension,
      attachment_filename = (\<lambda>h. None),
      file_mime_type = (\<lambda>chunk. ''text/plain''),
      md5_hexdigest = (\<lambda>bytes. ''md5:'' @ bytes),
      csv_text = (\<lambda>names rows. str_nat (length names) @ '' columns, '' @ str_nat (length rows) @ '' rows''),
      sha1_hexdigest = (\<lambda>bytes. ''sha1:'' @ bytes)\<rparr>"

definition empty_world :: world where
  "empty_world = \<lparr>files = Map.empty, dirs = {''/''}, sent = [], slept = [], printed = []\<rparr>"

definition sample_url :: string where
  "sample_url = ''http://example.com/arcgis/rest/services/addresses/MapServer/0''"

definition sample_ctx :: ctx where
  "sample_ctx = \<lparr>source_url = sample_url, objectid_fieldname = JStr ''OBJECTID'',
                  max_record_count = JNum 2\<rparr>"

definition sample_box :: bbox where
  "sample_box = \<lparr>xmin = 0, ymin = 0, xmax = 4, ymax = 4\<rparr>"

definition ok_response :: "json \<Rightarrow> response" where
  "ok_response j = \<lparr>status_code = 200, resp_text = [], json_body = Some j, headers = Map.empty, content = []\<rparr>"

definition point_feature :: "real \<Rightarrow> real \<Rightarrow> real \<Rightarrow> json" where
  "point_feature i x y =
     JObj [(''attributes'', JObj [(''OBJECTID'', JNum i)]),
           (''geometry'', JObj [(''x'', JNum x), (''y'', JNum y)])]"

definition point_tile :: "json list \<Rightarrow> response" where
  "point_tile fs = ok_response (JObj [(''geometryType'', JStr ''esriGeometryPoint''), (''features'', JArr fs)])"

text \<open>A server that answers every request with HTTP 500 and an error payload.\<close>

definition failing_server :: "nat \<Rightarrow> request \<Rightarrow> string + response" where
  "failing_server n rq =
     Inr \<lparr>status_code = 500, resp_text = ''Internal Server Error'',
          json_body = Some (JObj [(''error'', JObj [(''code'', JNum 500), (''message'', JStr ''Internal error'')])]),
          headers = Map.empty, content = ''Internal Server Error''\<rparr>"

definition sample_metadata :: json where
  "sample_metadata =
     JObj [(''fields'',
              JArr [JObj [(''name'', JStr ''OBJECTID''), (''type'', JStr ''esriFieldTypeOID'')],
                    JObj [(''name'', JStr ''STREET''), (''type'', JStr ''esriFieldTypeString'')]]),
           (''geometryType'', JStr ''esriGeometryPoint''),
           (''maxRecordCount'', JNum 2),
           (''extent'', JObj [(''xmin'', JNum 0), (''ymin'', JNum 0), (''xmax'', JNum 4), (''ymax'', JNum 4),
                              (''spatialReference'', JObj [(''wkid'', JNum 4326)])])]"

text \<open>A layer of two features on one point: every query returns both.\<close>

definition duplicate_server :: "nat \<Rightarrow> request \<Rightarrow> string + response" where
  "duplicate_server n rq =
     (if req_url rq = sample_url then Inr (ok_response sample_metadata)
      else Inr (point_tile [point_feature 1 2 2, point_feature 2 2 2]))"

text \<open>A layer of two features, at (1, 1) and (3, 3). The full extent returns both; the
  lower left quadrant returns the first again and the upper right one the second.\<close>

definition sparse_server :: "nat \<Rightarrow> request \<Rightarrow> string + response" where
  "sparse_server n rq =
     (let g = map_of (req_params rq) ''geometry'' in
      if req_url rq = sample_url then Inr (ok_response sample_metadata)
      else if g = Some (QFloats [0, 0, 4, 4]) then Inr (point_tile [point_feature 1 1 1, point_feature 2 3 3])
      else if g = Some (QFloats [0, 0, 2, 2]) then Inr (point_tile [point_feature 1 1 1])
      else if g = Some (QFloats [2, 2, 4, 4]) then Inr (point_tile [point_feature 2 3 3])
      else Inr (point_tile []))"

definition retained_point :: "real \<Rightarrow> real \<Rightarrow> real \<Rightarrow> json" where
  "retained_point i x y = JObj [(''OBJECTID'', JNum i), (''X'', JNum x), (''Y'', JNum y)]"

definition quadrant_requests :: "request list" where
  "quadrant_requests =
     [query_request sample_ctx sample_box,
      query_request sample_ctx \<lparr>xmin = 0, ymin = 0, xmax = 2, ymax = 2\<rparr>,
      query_request sample_ctx \<lparr>xmin = 2, ymin = 0, xmax = 4, ymax = 2\<rparr>,
      query_request sample_ctx \<lparr>xmin = 0, ymin = 2, xmax = 2, ymax = 4\<rparr>,
      query_request sample_ctx \<lparr>xmin = 2, ymin = 2, xmax = 4, ymax = 4\<rparr>]"

text \<open>A polygon whose only ring has three points.\<close>

definition degenerate_feature :: json where
  "degenerate_feature =
     JObj [(''attributes'', JObj [(''OBJECTID'', JNum 7)]),
           (''geometry'', JObj [(''rings'',
              JArr [JArr [JArr [JNum 0, JNum 0], JArr [JNum 2, JNum 0], JArr [JNum 2, JNum 4]]])])]"

text \<open>A polygon layer whose only feature has a ring of three points.\<close>

definition degenerate_metadata :: json where
  "degenerate_metadata =
     JObj [(''fields'', JArr [JObj [(''name'', JStr ''OBJECTID''), (''type'', JStr ''esriFieldTypeOID'')]]),
           (''geometryType'', JStr ''esriGeometryPolygon''),
           (''maxRecordCount'', JNum 1000),
           (''extent'', JObj [(''xmin'', JNum 0), (''ymin'', JNum 0), (''xmax'', JNum 4), (''ymax'', JNum 4),
                              (''spatialReference'', JObj [(''wkid'', JNum 4326)])])]"

definition degenerate_server :: "nat \<Rightarrow> request \<Rightarrow> string + response" where
  "degenerate_server n rq =
     (if req_url rq = sample_url then Inr (ok_response degenerate_metadata)
      else Inr (ok_response (JObj [(''geometryType'', JStr ''esriGeometryPolygon''),
                                   (''features'', JArr [degenerate_feature])])))"

definition degenerate_ctx :: ctx where
  "degenerate_ctx = \<lparr>source_url = sample_url, objectid_fieldname = JStr ''OBJECTID'',
                      max_record_count = JNum 1000\<rparr>"

text \<open>A layer whose geometry type is \<^verbatim>\<open>esriGeometryEnvelope\<close>, with one feature.\<close>

definition envelope_metadata :: json where
  "envelope_metadata =
     JObj [(''fields'', JArr [JObj [(''name'', JStr ''OBJECTID''), (''type'', JStr ''esriFieldTypeOID'')]]),
           (''geometryType'', JStr ''esriGeometryEnvelope''),
           (''maxRecordCount'', JNum 1000),
           (''extent'', JObj [(''xmin'', JNum 0), (''ymin'', JNum 0), (''xmax'', JNum 4), (''ymax'', JNum 4),
                              (''spatialReference'', JObj [(''wkid'', JNum 4326)])])]"

definition envelope_feature :: json where
  "envelope_feature =
     JObj [(''attributes'', JObj [(''OBJECTID'', JNum 1)]),
           (''geometry'', JObj [(''xmin'', JNum 1), (''ymin'', JNum 1), (''xmax'', JNum 2), (''ymax'', JNum 2)])]"

definition envelope_server :: "nat \<Rightarrow> request \<Rightarrow> string + response" where
  "envelope_server n rq =
     (if req_url rq = sample_url then Inr (ok_response envelope_metadata)
      else Inr (ok_response (JObj [(''geometryType'', JStr ''esriGeometryEnvelope''),
                                   (''features'', JArr [envelope_feature])])))"

text \<open>A layer whose metadata has every member the code checks, and no extent.\<close>

definition no_extent_server :: "nat \<Rightarrow> request \<Rightarrow> string + response" where
  "no_extent_server n rq =
     Inr (ok_response (JObj
       [(''fields'', JArr [JObj [(''name'', JStr ''OBJECTID''), (''type'', JStr ''esriFieldTypeOID'')]]),
        (''geometryType'', JStr ''esriGeometryPoint''),
        (''maxRecordCount'', JNum 1000)]))"

text \<open>A world after a download: one artifact in the scratch directory, no store yet.\<close>

definition cache_world :: world where
  "cache_world =
     \<lparr>files = [''/work/http/data.zip'' \<mapsto> ''PK''],
      dirs = {''/'', ''/out'', ''/work'', ''/work/http''},
      sent = [], slept = [], printed = []\<rparr>"

definition published :: "string \<rightharpoonup> string" where
  "published = [''cache'' \<mapsto> ''http://data.example.com/cache/data.zip'', ''fingerprint'' \<mapsto> ''md5:PK'']"

text \<open>A server that refuses the connection, and one that answers 404.\<close>

definition unreachable_server :: "nat \<Rightarrow> request \<Rightarrow> string + response" where
  "unreachable_server n rq = Inl ''Connection refused''"

definition not_found_server :: "nat \<Rightarrow> request \<Rightarrow> string + response" where
  "not_found_server n rq =
     Inr \<lparr>status_code = 404, resp_text = ''Not Found'', json_body = None,
          headers = Map.empty, content = ''Not Found''\<rparr>"

definition work_world :: world where
  "work_world = \<lparr>files = Map.empty, dirs = {''/'', ''/work'', ''/work/http''},
                  sent = [], slept = [], printed = []\<rparr>"

definition sample_names :: "json list" where
  "sample_names = [JStr ''OBJECTID'', JStr ''X'', JStr ''Y'', JStr ''GEOM'']"

text \<open>A server that fails twice and answers from the third request on.\<close>

definition flaky_server :: "nat \<Rightarrow> request \<Rightarrow> string + response" where
  "flaky_server n rq =
     (if n < 2 then failing_server n rq else Inr (point_tile [point_feature 1 1 1]))"

section \<open>Auxiliary notions\<close>

text \<open>The key under which a retained row's object-id sits in \<^verbatim>\<open>fetched_ids\<close>.\<close>

definition row_key :: "ctx \<Rightarrow> json \<Rightarrow> json option" where
  "row_key c row =
     (case ebind (py_item_j row (objectid_fieldname c)) py_hash_key of
        Inl ex \<Rightarrow> None
      | Inr k \<Rightarrow> Some k)"

text \<open>The rows \<open>rows\<close> carry distinct object-ids, new with respect to \<open>ids\<close>, and
  \<open>ids'\<close> is \<open>ids\<close> with them.\<close>

definition retained_once :: "ctx \<Rightarrow> json set \<Rightarrow> json list \<Rightarrow> json set \<Rightarrow> bool" where
  "retained_once c ids rows ids' \<longleftrightarrow>
     (\<exists>ks. map (row_key c) rows = map Some ks \<and> distinct ks \<and> set ks \<inter> ids = {} \<and> ids' = ids \<union> set ks)"

text \<open>The geometry types \<^verbatim>\<open>build_ogr_geometry\<close> has a branch for.\<close>

definition supported_geometry_types :: "json set" where
  "supported_geometry_types =
     {JStr ''esriGeometryPoint'', JStr ''esriGeometryMultipoint'',
      JStr ''esriGeometryPolygon'', JStr ''esriGeometryPolyline''}"


section \<open>Properties\<close>

declare query_loop.simps [simp del]
declare get_bbox.simps [simp del]

subsection \<open>Basic facts\<close>

lemma ebind_Inr_iff: "ebind m f = Inr y \<longleftrightarrow> (\<exists>x. m = Inr x \<and> f x = Inr y)"
  by (cases m) (simp_all add: ebind_def)

lemma ebind_Inr [simp]: "ebind (Inr x) f = f x"
  by (simp add: ebind_def)

lemma ebind_Inl [simp]: "ebind (Inl ex) f = Inl ex"
  by (simp add: ebind_def)

lemma str_int_500: "str_int 500 = ''500''"
  by (simp add: str_int_def digit_char_def)

lemma py_len_iter: "py_len j = Inr n \<Longrightarrow> py_iter j = Inr fs \<Longrightarrow> n = length fs"
  by (cases j) auto

lemma query_tile_count:
  assumes "query_tile e c b w = (Inr (gt, fs, n), w1)"
  shows "n = length fs"
proof -
  from assms obtain r features where
    "py_len features = Inr n" and "py_iter features = Inr fs"
    by (auto simp: query_tile_def ebind_Inr_iff split: prod.splits sum.splits option.splits)
  then show ?thesis by (rule py_len_iter)
qed

lemma get_bbox_query_error:
  "query_tile e c b w = (Inl ex, w1) \<Longrightarrow> get_bbox (Suc d) e c ids b w = (Inl ex, w1)"
  by (simp add: get_bbox.simps)

text \<open>The members of the sample environment.\<close>

lemma http_sample_env: "http (sample_env server) = server"
  by (simp add: sample_env_def)

lemma urlparse_sample_env:
  "urlparse (sample_env server) = sample_urlparse"
  "sha1_hexdigest (sample_env server) = (\<lambda>bytes. ''sha1:'' @ bytes)"
  by (simp_all add: sample_env_def)

lemma names_sample_env:
  "X_FIELDNAME (sample_env server) = ''X''"
  "Y_FIELDNAME (sample_env server) = ''Y''"
  "GEOM_FIELDNAME (sample_env server) = ''GEOM''"
  "recursion_limit (sample_env server) = 1000"
  "GetEnvelope (sample_env server) = sample_GetEnvelope"
  "Transform (sample_env server) = (\<lambda>wkid g. Inr g)"
  by (simp_all add: sample_env_def)

lemma sample_env_fields:
  "http (sample_env server) = server"
  "Centroid (sample_env server) = sample_Centroid"
  "GetEnvelope (sample_env server) = sample_GetEnvelope"
  "ExportToWkt (sample_env server) = (\<lambda>g. ''GEOMETRY'')"
  "Transform (sample_env server) = (\<lambda>wkid g. Inr g)"
  "py_round (sample_env server) = sample_round"
  "float_add (sample_env server) = (+)"
  "float_div (sample_env server) = (/)"
  "X_FIELDNAME (sample_env server) = ''X''"
  "Y_FIELDNAME (sample_env server) = ''Y''"
  "GEOM_FIELDNAME (sample_env server) = ''GEOM''"
  "recursion_limit (sample_env server) = Suc 999"
  "urlparse (sample_env server) = sample_urlparse"
  "sha1_hexdigest (sample_env server) = (\<lambda>bytes. ''sha1:'' @ bytes)"
  "csv_text (sample_env server)
     = (\<lambda>names rows. str_nat (length names) @ '' columns, '' @ str_nat (length rows) @ '' rows'')"
  by (simp_all add: sample_env_def)

subsection \<open>The retry loop\<close>

text \<open>Whatever the server does, the loop itself never raises a \<^verbatim>\<open>DownloadError\<close>: its
  handler catches every one of them.\<close>

lemma query_loop_no_DownloadError:
  "fst (query_loop e rq tries resp w) \<noteq> Inl (DownloadError m cause)"
proof (induction e rq tries resp w rule: query_loop.induct)
  case (1 e rq tries resp w)
  show ?case
  proof (cases "tries \<ge> 0")
    case False
    then show ?thesis by (simp add: query_loop.simps)
  next
    case True
    show ?thesis
    proof (cases "requests_get e rq w")
      case (Pair res w1)
      show ?thesis
      proof (cases res)
        case (Inl ex)
        with Pair True show ?thesis
          by (auto simp: query_loop.simps [of e rq tries] requests_get_def split: sum.splits)
      next
        case (Inr r)
        with Pair True 1 show ?thesis
          by (auto simp: query_loop.simps [of e rq tries] split: sum.splits)
      qed
    qed
  qed
qed

text \<open>The loop sends one request more than \<open>tries\<close> at most: four for \<open>tries = 3\<close>.\<close>

lemma query_loop_requests:
  "tries \<ge> -1 \<Longrightarrow>
   length (sent (snd (query_loop e rq tries resp w))) \<le> length (sent w) + nat (tries + 1)"
proof (induction e rq tries resp w rule: query_loop.induct)
  case (1 e rq tries resp w)
  show ?case
  proof (cases "tries \<ge> 0")
    case False
    then show ?thesis by (simp add: query_loop.simps)
  next
    case True
    obtain res w1 where g: "requests_get e rq w = (res, w1)"
      by (cases "requests_get e rq w")
    then have len: "length (sent w1) = Suc (length (sent w))"
      by (auto simp: requests_get_def split: sum.splits)
    show ?thesis
    proof (cases res)
      case (Inl ex)
      with g True len show ?thesis
        by (simp add: query_loop.simps [of e rq tries])
    next
      case (Inr r)
      show ?thesis
      proof (cases "check_tile_response r")
        case (Inr u)
        with g True len \<open>res = Inr r\<close> show ?thesis
          by (simp add: query_loop.simps [of e rq tries])
      next
        case (Inl ex)
        show ?thesis
        proof (cases "is_DownloadError ex")
          case False
          with g True len Inl \<open>res = Inr r\<close> show ?thesis
            by (simp add: query_loop.simps [of e rq tries])
        next
          case d: True
          have "length (sent (snd (query_loop e rq (tries - 1) (Some r) (time_sleep 1 w1))))
                  \<le> length (sent (time_sleep 1 w1)) + nat (tries - 1 + 1)"
            using "1.IH" [OF True g [symmetric] \<open>res = Inr r\<close> Inl d] True by simp
          with g True len Inl d \<open>res = Inr r\<close> show ?thesis
            by (simp add: query_loop.simps [of e rq tries] time_sleep_def nat_diff_distrib)
        qed
      qed
    qed
  qed
qed

lemma failing_tile:
  "query_tile (sample_env failing_server) sample_ctx sample_box empty_world
     = (Inl (TypeError ''len''),
        empty_world\<lparr>sent := replicate 4 (query_request sample_ctx sample_box), slept := [1, 1, 1, 1]\<rparr>)"
  by (simp add: query_tile_def query_loop.simps sample_env_def failing_server_def empty_world_def
        requests_get_def check_tile_response_def time_sleep_def response_json_def
        numeral_eq_Suc)

text \<open>Two failures and a success: three requests, two sleeps, and the features of the
  third response.\<close>

lemma flaky_tile:
  "query_tile (sample_env flaky_server) sample_ctx sample_box empty_world
     = (Inr (JStr ''esriGeometryPoint'', [point_feature 1 1 1], 1),
        empty_world\<lparr>sent := replicate 3 (query_request sample_ctx sample_box), slept := [1, 1],
          printed := [(1, sample_box)]\<rparr>)"
  by (simp add: query_tile_def query_loop.simps sample_env_def flaky_server_def failing_server_def
        empty_world_def requests_get_def check_tile_response_def check_error_payload_def
        time_sleep_def response_json_def point_tile_def ok_response_def numeral_eq_Suc)

text \<open>
  Claim C1. Every per-tile query is attempted up to 3 times in total, with a sleep of one
  second between attempts, and when the last attempt fails too the failure reaches the
  caller as a \<^verbatim>\<open>DownloadError\<close>.

  The code does otherwise. Against a server that answers every query with HTTP 500 and an
  error payload, \<^verbatim>\<open>get_bbox\<close> sends the query four times, sleeps after each of the four
  failures, catches the fourth \<^verbatim>\<open>DownloadError\<close> like the others, leaves the loop and
  reads the features of the failed response: \<^verbatim>\<open>len(None)\<close> raises a \<^verbatim>\<open>TypeError\<close>.
\<close>

theorem C1_final_failure_not_raised:
  "get_bbox (recursion_limit (sample_env failing_server)) (sample_env failing_server) sample_ctx {}
       sample_box empty_world
     = (Inl (TypeError ''len''),
        empty_world\<lparr>sent := replicate 4 (query_request sample_ctx sample_box), slept := [1, 1, 1, 1]\<rparr>)"
proof -
  have "recursion_limit (sample_env failing_server) = Suc 999"
    by (simp add: sample_env_def)
  then show ?thesis
    by (simp only: get_bbox_query_error [OF failing_tile])
qed

subsection \<open>Features already seen\<close>

lemma retain_feature_seen:
  assumes "py_get f ''attributes'' (JObj []) = Inr row"
    and "py_item_j row (objectid_fieldname c) = Inr oid"
    and "py_hash_key oid = Inr k" and "k \<in> ids"
  shows "retain_feature e c gt f ids = Inr (None, ids)"
  using assms by (simp add: retain_feature_def)

lemma retain_features_all_seen:
  assumes "\<forall>f\<in>set fs. \<exists>row oid k. py_get f ''attributes'' (JObj []) = Inr row
             \<and> py_item_j row (objectid_fieldname c) = Inr oid \<and> py_hash_key oid = Inr k \<and> k \<in> ids"
  shows "retain_features e c gt fs ids acc = Inr (acc, ids)"
  using assms
proof (induction fs)
  case Nil
  show ?case by simp
next
  case (Cons f fs)
  from Cons.prems have "retain_feature e c gt f ids = Inr (None, ids)"
    by (auto intro: retain_feature_seen)
  with Cons show ?case by simp
qed

lemma mean_of_Nil: "mean_of e k [] = Inl (ZeroDivisionError ''float division by zero'')"
  by (simp add: mean_of_def)

text \<open>
  Claim C10. The pivot is the mean over the rows newly retained in the tile, not over the
  features the query returned: when a query returns at least \<^verbatim>\<open>maxRecordCount\<close> features
  whose object-ids are all in the seen-set already, no row is retained, the mean divides
  by zero, and \<^verbatim>\<open>get_bbox\<close> raises a \<^verbatim>\<open>ZeroDivisionError\<close>, which is no
  \<^verbatim>\<open>DownloadError\<close>.
\<close>

theorem C10_pivot_divides_by_retained_rows:
  assumes "query_tile e c b w = (Inr (gt, fs, n), w1)"
    and "max_record_count c = JNum m"
    and "real (length fs) \<ge> m"
    and "\<forall>f\<in>set fs. \<exists>row oid k. py_get f ''attributes'' (JObj []) = Inr row
           \<and> py_item_j row (objectid_fieldname c) = Inr oid \<and> py_hash_key oid = Inr k \<and> k \<in> ids"
  shows "get_bbox (Suc d) e c ids b w = (Inl (ZeroDivisionError ''float division by zero''), w1)
         \<and> \<not> is_DownloadError (ZeroDivisionError ''float division by zero'')"
proof -
  have n: "n = length fs"
    using assms(1) by (rule query_tile_count)
  have kept: "retain_features e c gt fs ids [] = Inr ([], ids)"
    using assms(4) by (rule retain_features_all_seen)
  have ge: "py_ge n (max_record_count c) = Inr True"
    using assms(2,3) n by simp
  show ?thesis
    by (simp add: get_bbox.simps assms(1) kept ge mean_of_Nil)
qed

lemma duplicate_tile:
  "query_tile (sample_env duplicate_server) sample_ctx sample_box empty_world
     = (Inr (JStr ''esriGeometryPoint'', [point_feature 1 2 2, point_feature 2 2 2], 2),
        empty_world\<lparr>sent := [query_request sample_ctx sample_box], printed := [(2, sample_box)]\<rparr>)"
  by (simp add: query_tile_def query_loop.simps sample_env_def duplicate_server_def empty_world_def
        requests_get_def check_tile_response_def check_error_payload_def response_json_def
        query_request_def sample_ctx_def sample_url_def point_tile_def ok_response_def)

theorem C10_witness:
  "get_bbox (Suc 0) (sample_env duplicate_server) sample_ctx {JNum 1, JNum 2} sample_box empty_world
     = (Inl (ZeroDivisionError ''float division by zero''),
        empty_world\<lparr>sent := [query_request sample_ctx sample_box], printed := [(2, sample_box)]\<rparr>)"
proof -
  have cap: "max_record_count sample_ctx = JNum 2"
    by (simp add: sample_ctx_def)
  have seen: "\<forall>f\<in>set [point_feature 1 2 2, point_feature 2 2 2].
      \<exists>row oid k. py_get f ''attributes'' (JObj []) = Inr row
        \<and> py_item_j row (objectid_fieldname sample_ctx) = Inr oid \<and> py_hash_key oid = Inr k
        \<and> k \<in> {JNum 1, JNum 2}"
    by (simp add: point_feature_def sample_ctx_def)
  show ?thesis
    using C10_pivot_divides_by_retained_rows [OF duplicate_tile cap _ seen, of 0] by simp
qed

text \<open>The same from the start of an acquisition: the first tile retains both features, its
  first quadrant returns them again, and the whole download ends in the division.\<close>

lemma ancestors_work_esri: "ancestors ''/work/esri'' = [''/'', ''/work'', ''/work/esri'']"
  by (simp add: dirname_def)

lemma duplicate_acquisition:
  "fst (EsriRestDownloadTask_download (sample_env duplicate_server) None [sample_url] ''/work'' empty_world)
     = Inl (ZeroDivisionError ''float division by zero'')"
  by (simp add: EsriRestDownloadTask_download_def esri_download_url_def esri_metadata_def
      read_metadata_def EsriRestDownloadTask_get_file_path_def mkdirsp_def path_join_def
      ancestors_work_esri
      sample_env_def sample_urlparse_def sample_url_def duplicate_server_def empty_world_def
      requests_get_def metadata_request_def ok_response_def sample_metadata_def response_json_def
      path_exists_def dir_entry_def rstrip_sep_def open_write_def dirname_def append_absent_def reproject_extent_def
      extent_corner_def sample_GetEnvelope_def geometry_points_def
      get_bbox.simps numeral_eq_Suc query_tile_def query_loop.simps check_tile_response_def
      check_error_payload_def query_request_def point_tile_def point_feature_def
      retain_feature_def build_ogr_geometry_def row_coordinates_def sample_Centroid_def
      sample_round_def mean_of_def quadrants_def)

subsection \<open>The recursion\<close>








lemma get_bbox_Suc_Inr:
  assumes "get_bbox (Suc d) e c ids b w = (Inr (rows, ids'), w')"
  shows "\<exists>gt fs n w1 own ids1 ge.
           query_tile e c b w = (Inr (gt, fs, n), w1)
         \<and> retain_features e c gt fs ids [] = Inr (own, ids1)
         \<and> py_ge n (max_record_count c) = Inr ge
         \<and> (if \<not> ge then rows = own \<and> ids' = ids1 \<and> w' = w1
            else \<exists>mx my r1 i2 w2 r2 i3 w3 r3 i4 w4 r4.
                   mean_of e (X_FIELDNAME e) own = Inr mx \<and> mean_of e (Y_FIELDNAME e) own = Inr my
                 \<and> get_bbox d e c ids1 \<lparr>xmin = xmin b, ymin = ymin b, xmax = mx, ymax = my\<rparr> w1 = (Inr (r1, i2), w2)
                 \<and> get_bbox d e c i2 \<lparr>xmin = mx, ymin = ymin b, xmax = xmax b, ymax = my\<rparr> w2 = (Inr (r2, i3), w3)
                 \<and> get_bbox d e c i3 \<lparr>xmin = xmin b, ymin = my, xmax = mx, ymax = ymax b\<rparr> w3 = (Inr (r3, i4), w4)
                 \<and> get_bbox d e c i4 \<lparr>xmin = mx, ymin = my, xmax = xmax b, ymax = ymax b\<rparr> w4 = (Inr (r4, ids'), w')
                 \<and> rows = own @ r1 @ r2 @ r3 @ r4)"
proof -
  from assms obtain gt fs n w1 where q: "query_tile e c b w = (Inr (gt, fs, n), w1)"
    by (cases "query_tile e c b w") (auto simp: get_bbox.simps split: sum.splits)
  from assms q obtain own ids1 where r: "retain_features e c gt fs ids [] = Inr (own, ids1)"
    by (cases "retain_features e c gt fs ids []") (auto simp: get_bbox.simps)
  from assms q r obtain ge where g: "py_ge n (max_record_count c) = Inr ge"
    by (cases "py_ge n (max_record_count c)") (auto simp: get_bbox.simps)
  show ?thesis
  proof (cases ge)
    case False
    with assms q r g have "rows = own \<and> ids' = ids1 \<and> w' = w1"
      by (simp add: get_bbox.simps)
    with q r g False show ?thesis
      apply -
      apply (rule exI [of _ gt], rule exI [of _ fs], rule exI [of _ n])
      apply (rule exI [of _ w1], rule exI [of _ own], rule exI [of _ ids1])
      apply (rule exI [of _ False])
      by simp
  next
    case True
    from assms q r g True obtain mx where mx: "mean_of e (X_FIELDNAME e) own = Inr mx"
      by (cases "mean_of e (X_FIELDNAME e) own") (auto simp: get_bbox.simps)
    from assms q r g True mx obtain my where my: "mean_of e (Y_FIELDNAME e) own = Inr my"
      by (cases "mean_of e (Y_FIELDNAME e) own") (auto simp: get_bbox.simps)
    let ?q1 = "\<lparr>xmin = xmin b, ymin = ymin b, xmax = mx, ymax = my\<rparr>"
    let ?q2 = "\<lparr>xmin = mx, ymin = ymin b, xmax = xmax b, ymax = my\<rparr>"
    let ?q3 = "\<lparr>xmin = xmin b, ymin = my, xmax = mx, ymax = ymax b\<rparr>"
    let ?q4 = "\<lparr>xmin = mx, ymin = my, xmax = xmax b, ymax = ymax b\<rparr>"
    note unfold = get_bbox.simps(2) [of d e c ids b w] q r g True mx my quadrants_def
    from assms obtain r1 i2 w2 where c1: "get_bbox d e c ids1 ?q1 w1 = (Inr (r1, i2), w2)"
      by (cases "get_bbox d e c ids1 ?q1 w1") (auto simp: unfold split: sum.splits)
    from assms c1 obtain r2 i3 w3 where c2: "get_bbox d e c i2 ?q2 w2 = (Inr (r2, i3), w3)"
      by (cases "get_bbox d e c i2 ?q2 w2") (auto simp: unfold split: sum.splits)
    from assms c1 c2 obtain r3 i4 w4 where c3: "get_bbox d e c i3 ?q3 w3 = (Inr (r3, i4), w4)"
      by (cases "get_bbox d e c i3 ?q3 w3") (auto simp: unfold split: sum.splits)
    from assms c1 c2 c3 obtain r4 i5 w5 where c4: "get_bbox d e c i4 ?q4 w4 = (Inr (r4, i5), w5)"
      by (cases "get_bbox d e c i4 ?q4 w4") (auto simp: unfold split: sum.splits)
    from assms c1 c2 c3 c4 have "rows = own @ r1 @ r2 @ r3 @ r4" "ids' = i5" "w' = w5"
      by (simp_all add: unfold)
    with q r g True mx my c1 c2 c3 c4 show ?thesis
      apply -
      apply (rule exI [of _ gt], rule exI [of _ fs], rule exI [of _ n])
      apply (rule exI [of _ w1], rule exI [of _ own], rule exI [of _ ids1])
      apply (rule exI [of _ True])
      by auto
  qed
qed

lemma retained_once_append:
  assumes "retained_once c ids rs1 ids1" and "retained_once c ids1 rs2 ids2"
  shows "retained_once c ids (rs1 @ rs2) ids2"
proof -
  from assms(1) obtain ks1 where 1: "map (row_key c) rs1 = map Some ks1" "distinct ks1"
    "set ks1 \<inter> ids = {}" "ids1 = ids \<union> set ks1"
    by (auto simp: retained_once_def)
  from assms(2) obtain ks2 where 2: "map (row_key c) rs2 = map Some ks2" "distinct ks2"
    "set ks2 \<inter> ids1 = {}" "ids2 = ids1 \<union> set ks2"
    by (auto simp: retained_once_def)
  have "map (row_key c) (rs1 @ rs2) = map Some (ks1 @ ks2)"
    using 1(1) 2(1) by simp
  moreover have "distinct (ks1 @ ks2)"
    using 1(2,4) 2(2,3) by auto
  moreover have "set (ks1 @ ks2) \<inter> ids = {}"
    using 1(3,4) 2(3) by auto
  moreover have "ids2 = ids \<union> set (ks1 @ ks2)"
    using 1(4) 2(4) by auto
  ultimately show ?thesis
    unfolding retained_once_def by blast
qed

lemma py_item_j_Inr: "py_item_j row key = Inr v \<Longrightarrow> \<exists>kv. row = JObj kv"
  by (cases row; cases key) simp_all

lemma map_of_dict_set_other: "k \<noteq> x \<Longrightarrow> map_of (dict_set kv x v) k = map_of kv k"
  by (induction kv) auto

lemma py_item_j_dict_set:
  "key \<noteq> JStr x \<Longrightarrow> py_item_j (JObj (dict_set kv x v)) key = py_item_j (JObj kv) key"
  by (cases key) (simp_all add: map_of_dict_set_other)

lemma retain_feature_Some:
  assumes "retain_feature e c gt f ids = Inr (Some row, ids1)"
    and "objectid_fieldname c \<noteq> JStr (X_FIELDNAME e)"
    and "objectid_fieldname c \<noteq> JStr (Y_FIELDNAME e)"
  shows "\<exists>k. row_key c row = Some k \<and> k \<notin> ids \<and> ids1 = insert k ids"
proof -
  from assms(1) obtain row0 oid k where
    row0: "py_get f ''attributes'' (JObj []) = Inr row0"
    and oid: "py_item_j row0 (objectid_fieldname c) = Inr oid"
    and k: "py_hash_key oid = Inr k"
    by (auto simp: retain_feature_def ebind_Inr_iff)
  from oid obtain kv where kv: "row0 = JObj kv"
    by (auto dest: py_item_j_Inr)
  have notin: "k \<notin> ids"
    using assms(1) row0 oid k by (auto simp: retain_feature_def)
  from assms(1) row0 oid k notin kv obtain g x y where
    row: "row = JObj (dict_set (dict_set kv (X_FIELDNAME e) (JNum x)) (Y_FIELDNAME e) (JNum y))"
    and ids1: "\<exists>oid2 k2. py_item_j row (objectid_fieldname c) = Inr oid2 \<and> py_hash_key oid2 = Inr k2
                 \<and> ids1 = insert k2 ids"
    by (auto simp: retain_feature_def ebind_Inr_iff split: prod.splits)
  have same: "py_item_j row (objectid_fieldname c) = Inr oid"
    using assms(2,3) oid kv by (simp add: row py_item_j_dict_set)
  with ids1 k have "ids1 = insert k ids" by auto
  moreover have "row_key c row = Some k"
    by (simp add: row_key_def same k)
  ultimately show ?thesis using notin by blast
qed

lemma retain_feature_None:
  "retain_feature e c gt f ids = Inr (None, ids1) \<Longrightarrow> ids1 = ids"
  by (auto simp: retain_feature_def ebind_Inr_iff split: if_splits prod.splits)

lemma retain_features_inv:
  assumes "retain_features e c gt fs ids acc = Inr (rows, ids1)"
    and "objectid_fieldname c \<noteq> JStr (X_FIELDNAME e)"
    and "objectid_fieldname c \<noteq> JStr (Y_FIELDNAME e)"
  shows "\<exists>new. rows = acc @ new \<and> retained_once c ids new ids1"
  using assms(1)
proof (induction fs arbitrary: ids acc)
  case Nil
  then show ?case by (simp add: retained_once_def)
next
  case (Cons f fs)
  from Cons.prems obtain res ids0 where
    step: "retain_feature e c gt f ids = Inr (res, ids0)"
    by (auto split: sum.splits)
  show ?case
  proof (cases res)
    case None
    with step have "ids0 = ids" by (auto dest: retain_feature_None)
    with Cons.prems step None have "retain_features e c gt fs ids acc = Inr (rows, ids1)"
      by simp
    then show ?thesis by (rule Cons.IH)
  next
    case (Some row)
    with step obtain k where k: "row_key c row = Some k" "k \<notin> ids" "ids0 = insert k ids"
      using retain_feature_Some [OF _ assms(2,3)] by blast
    then have one: "retained_once c ids [row] ids0"
      unfolding retained_once_def by (intro exI [of _ "[k]"]) simp
    from Cons.prems step Some
    have "retain_features e c gt fs ids0 (acc @ [row]) = Inr (rows, ids1)"
      by simp
    from Cons.IH [OF this] obtain new where
      new: "rows = (acc @ [row]) @ new" "retained_once c ids0 new ids1"
      by blast
    have "retained_once c ids ([row] @ new) ids1"
      using one new(2) by (rule retained_once_append)
    with new(1) show ?thesis by simp
  qed
qed

lemma get_bbox_retained_once:
  assumes "objectid_fieldname c \<noteq> JStr (X_FIELDNAME e)"
    and "objectid_fieldname c \<noteq> JStr (Y_FIELDNAME e)"
  shows "get_bbox d e c ids b w = (Inr (rows, ids'), w') \<Longrightarrow> retained_once c ids rows ids'"
proof (induction d arbitrary: ids b w rows ids' w')
  case 0
  then show ?case by (simp add: get_bbox.simps)
next
  case (Suc d)
  from get_bbox_Suc_Inr [OF Suc.prems] obtain gt fs n w1 own ids1 ge where
    r: "retain_features e c gt fs ids [] = Inr (own, ids1)"
    and rest: "if \<not> ge then rows = own \<and> ids' = ids1 \<and> w' = w1
       else \<exists>mx my r1 i2 w2 r2 i3 w3 r3 i4 w4 r4.
              mean_of e (X_FIELDNAME e) own = Inr mx \<and> mean_of e (Y_FIELDNAME e) own = Inr my
            \<and> get_bbox d e c ids1 \<lparr>xmin = xmin b, ymin = ymin b, xmax = mx, ymax = my\<rparr> w1 = (Inr (r1, i2), w2)
            \<and> get_bbox d e c i2 \<lparr>xmin = mx, ymin = ymin b, xmax = xmax b, ymax = my\<rparr> w2 = (Inr (r2, i3), w3)
            \<and> get_bbox d e c i3 \<lparr>xmin = xmin b, ymin = my, xmax = mx, ymax = ymax b\<rparr> w3 = (Inr (r3, i4), w4)
            \<and> get_bbox d e c i4 \<lparr>xmin = mx, ymin = my, xmax = xmax b, ymax = ymax b\<rparr> w4 = (Inr (r4, ids'), w')
            \<and> rows = own @ r1 @ r2 @ r3 @ r4"
    by blast
  from retain_features_inv [OF r assms] have own: "retained_once c ids own ids1"
    by simp
  show ?case
  proof (cases ge)
    case False
    with rest own show ?thesis by simp
  next
    case True
    with rest obtain r1 i2 r2 i3 r3 i4 r4 where
      "retained_once c ids1 r1 i2" "retained_once c i2 r2 i3" "retained_once c i3 r3 i4"
      "retained_once c i4 r4 ids'" and rows: "rows = own @ r1 @ r2 @ r3 @ r4"
      using Suc.IH by (simp only: if_False not_True_eq_False) blast
    then have "retained_once c ids (own @ r1 @ r2 @ r3 @ r4) ids'"
      using own by (blast intro: retained_once_append)
    with rows show ?thesis by simp
  qed
qed

lemmas sparse_eval =
  query_tile_def query_loop.simps sample_env_def sparse_server_def empty_world_def
  requests_get_def check_tile_response_def check_error_payload_def response_json_def
  query_request_def sample_ctx_def sample_url_def sample_box_def point_tile_def ok_response_def
  point_feature_def retain_feature_def build_ogr_geometry_def row_coordinates_def
  sample_Centroid_def sample_round_def mean_of_def quadrants_def retained_point_def



lemma sparse_traversal:
  "get_bbox (Suc (Suc 0)) (sample_env sparse_server) sample_ctx {} sample_box empty_world
     = (Inr ([retained_point 1 1 1, retained_point 2 3 3], {JNum 1, JNum 2}),
        empty_world\<lparr>sent := quadrant_requests,
          printed := [(2, sample_box),
                      (1, \<lparr>xmin = 0, ymin = 0, xmax = 2, ymax = 2\<rparr>),
                      (0, \<lparr>xmin = 2, ymin = 0, xmax = 4, ymax = 2\<rparr>),
                      (0, \<lparr>xmin = 0, ymin = 2, xmax = 2, ymax = 4\<rparr>),
                      (1, \<lparr>xmin = 2, ymin = 2, xmax = 4, ymax = 4\<rparr>)]\<rparr>)"
  by (simp add: get_bbox.simps sparse_eval quadrant_requests_def insert_commute)















text \<open>
  Claim C3. Across the whole recursive traversal each object-id is retained at most once:
  the rows \<^verbatim>\<open>get_bbox\<close> returns carry pairwise distinct object-ids, none of which was
  in the seen-set before, all of which are in it afterwards; and a feature whose object-id
  is in the seen-set is skipped. The object-id column is assumed not to be one of the two
  coordinate columns, which the loop overwrites before it registers the id.
\<close>

theorem C3_each_object_id_retained_once:
  assumes "get_bbox d e c ids b w = (Inr (rows, ids'), w')"
    and "objectid_fieldname c \<noteq> JStr (X_FIELDNAME e)"
    and "objectid_fieldname c \<noteq> JStr (Y_FIELDNAME e)"
  shows "(\<exists>ks. map (row_key c) rows = map Some ks \<and> distinct ks \<and> set ks \<inter> ids = {}
            \<and> ids' = ids \<union> set ks)
       \<and> (\<forall>f gt row oid k.
             py_get f ''attributes'' (JObj []) = Inr row
           \<and> py_item_j row (objectid_fieldname c) = Inr oid \<and> py_hash_key oid = Inr k \<and> k \<in> ids'
           \<longrightarrow> retain_feature e c gt f ids' = Inr (None, ids'))"
proof
  show "\<exists>ks. map (row_key c) rows = map Some ks \<and> distinct ks \<and> set ks \<inter> ids = {}
            \<and> ids' = ids \<union> set ks"
    using get_bbox_retained_once [OF assms(2,3) assms(1)] by (simp add: retained_once_def)
next
  show "\<forall>f gt row oid k.
             py_get f ''attributes'' (JObj []) = Inr row
           \<and> py_item_j row (objectid_fieldname c) = Inr oid \<and> py_hash_key oid = Inr k \<and> k \<in> ids'
           \<longrightarrow> retain_feature e c gt f ids' = Inr (None, ids')"
    by (blast intro: retain_feature_seen)
qed

theorem C3_witness:
  "(\<exists>ks. map (row_key sample_ctx) [retained_point 1 1 1, retained_point 2 3 3] = map Some ks
          \<and> distinct ks \<and> {JNum 1, JNum 2} = set ks)
   \<and> retain_feature (sample_env sparse_server) sample_ctx (JStr ''esriGeometryPoint'')
        (point_feature 1 1 1) {JNum 1, JNum 2} = Inr (None, {JNum 1, JNum 2})"
proof -
  have ne: "objectid_fieldname sample_ctx \<noteq> JStr (X_FIELDNAME (sample_env sparse_server))"
    "objectid_fieldname sample_ctx \<noteq> JStr (Y_FIELDNAME (sample_env sparse_server))"
    by (simp_all add: sample_ctx_def sample_env_def)
  note rule = C3_each_object_id_retained_once [OF sparse_traversal ne]
  have "\<exists>ks. map (row_key sample_ctx) [retained_point 1 1 1, retained_point 2 3 3] = map Some ks
          \<and> distinct ks \<and> {JNum 1, JNum 2} = set ks"
    using rule [THEN conjunct1] by simp
  moreover have "retain_feature (sample_env sparse_server) sample_ctx (JStr ''esriGeometryPoint'')
        (point_feature 1 1 1) {JNum 1, JNum 2} = Inr (None, {JNum 1, JNum 2})"
    using rule [THEN conjunct2, rule_format, of "point_feature 1 1 1" "JObj [(''OBJECTID'', JNum 1)]" "JNum 1" "JNum 1"]
    by (simp add: point_feature_def sample_ctx_def)
  ultimately show ?thesis ..
qed

lemma retain_features_prefix:
  "retain_features e c gt fs ids acc = Inr (rows, ids1) \<Longrightarrow> \<exists>new. rows = acc @ new"
proof (induction fs arbitrary: ids acc)
  case Nil
  then show ?case by simp
next
  case (Cons f fs)
  from Cons.prems obtain res ids0 where
    step: "retain_feature e c gt f ids = Inr (res, ids0)"
    by (auto split: sum.splits)
  show ?case
  proof (cases res)
    case None
    with Cons.prems step show ?thesis by (auto dest: Cons.IH)
  next
    case (Some row)
    with Cons.prems step have "retain_features e c gt fs ids0 (acc @ [row]) = Inr (rows, ids1)"
      by simp
    from Cons.IH [OF this] show ?thesis by auto
  qed
qed

text \<open>A feature whose centroid fails on a malformed linear ring is retained by the loop over
  the features of its tile: its row gets the rounded midpoint of the geometry's envelope as
  coordinates and no exception is raised for it.\<close>

lemma retain_feature_degenerate_ring:
  assumes "py_get f ''attributes'' (JObj []) = Inr (JObj kv)"
    and "py_item_j (JObj kv) (objectid_fieldname c) = Inr oid"
    and "py_hash_key oid = Inr k" and "k \<notin> ids"
    and "objectid_fieldname c \<noteq> JStr (X_FIELDNAME e)"
    and "objectid_fieldname c \<noteq> JStr (Y_FIELDNAME e)"
    and "build_ogr_geometry gt f = Inr g"
    and "Centroid e g = Inl (RuntimeError m)"
    and "str_contains LINEAR_RING_MESSAGE m"
    and "GetEnvelope e g = (x0, x1, y0, y1)"
    and "row = JObj (dict_set (dict_set kv (X_FIELDNAME e)
                          (JNum (py_round e (float_add e (float_div e x0 2) (float_div e x1 2)) 7)))
                        (Y_FIELDNAME e)
                          (JNum (py_round e (float_add e (float_div e y0 2) (float_div e y1 2)) 7)))"
  shows "retain_feature e c gt f ids = Inr (Some row, insert k ids)
       \<and> (\<forall>fs acc rows ids'.
            retain_features e c gt (f # fs) ids acc = Inr (rows, ids') \<longrightarrow> row \<in> set rows)"
proof -
  have coords: "row_coordinates e g
      = Inr (py_round e (float_add e (float_div e x0 2) (float_div e x1 2)) 7,
             py_round e (float_add e (float_div e y0 2) (float_div e y1 2)) 7)"
    using assms(8,9,10) by (simp add: row_coordinates_def)
  have oid2: "py_item_j row (objectid_fieldname c) = Inr oid"
    using assms(2,5,6) by (simp add: assms(11) py_item_j_dict_set)
  have step: "retain_feature e c gt f ids = Inr (Some row, insert k ids)"
    using assms(1,2,3,4,7) coords oid2
    by (simp add: retain_feature_def assms(11) [symmetric])
  have "row \<in> set rows" if "retain_features e c gt (f # fs) ids acc = Inr (rows, ids')"
    for fs acc rows ids'
  proof -
    from that step have "retain_features e c gt fs (insert k ids) (acc @ [row]) = Inr (rows, ids')"
      by simp
    from retain_features_prefix [OF this] show ?thesis by auto
  qed
  with step show ?thesis by blast
qed

lemma degenerate_feature_retained:
  "retain_feature (sample_env sparse_server) sample_ctx (JStr ''esriGeometryPolygon'') degenerate_feature {}
     = Inr (Some (JObj [(''OBJECTID'', JNum 7), (''X'', JNum 1), (''Y'', JNum 2)]), {JNum 7})"
proof -
  let ?e = "sample_env sparse_server"
  let ?g = "Polygon [[(0, 0), (2, 0), (2, 4)]]"
  have 1: "py_get degenerate_feature ''attributes'' (JObj []) = Inr (JObj [(''OBJECTID'', JNum 7)])"
    by (simp add: degenerate_feature_def)
  have 2: "py_item_j (JObj [(''OBJECTID'', JNum 7)]) (objectid_fieldname sample_ctx) = Inr (JNum 7)"
    by (simp add: sample_ctx_def)
  have 3: "py_hash_key (JNum 7) = Inr (JNum 7)" by simp
  have 4: "JNum 7 \<notin> {}" by simp
  have 5: "objectid_fieldname sample_ctx \<noteq> JStr (X_FIELDNAME ?e)"
    "objectid_fieldname sample_ctx \<noteq> JStr (Y_FIELDNAME ?e)"
    by (simp_all add: sample_ctx_def sample_env_def)
  have 6: "build_ogr_geometry (JStr ''esriGeometryPolygon'') degenerate_feature = Inr ?g"
    by (simp add: build_ogr_geometry_def degenerate_feature_def read_lines_def read_points_def
        read_point_def)
  have 7: "Centroid ?e ?g
      = Inl (RuntimeError ''Invalid number of points in LinearRing found 3 - must be 0 or >= 4'')"
    by (simp add: sample_env_def sample_Centroid_def)
  have 8: "str_contains LINEAR_RING_MESSAGE
      ''Invalid number of points in LinearRing found 3 - must be 0 or >= 4''"
    by (simp add: LINEAR_RING_MESSAGE_def)
  have 9: "GetEnvelope ?e ?g = (0, 2, 0, 4)"
    by (simp add: sample_env_def sample_GetEnvelope_def geometry_points_def)
  have round: "py_round ?e (float_add ?e (float_div ?e 0 2) (float_div ?e 2 2)) 7 = 1"
    "py_round ?e (float_add ?e (float_div ?e 0 2) (float_div ?e 4 2)) 7 = 2"
    by (simp_all add: sample_env_def sample_round_def)
  have names: "X_FIELDNAME ?e = ''X''" "Y_FIELDNAME ?e = ''Y''"
    by (simp_all add: sample_env_def)
  from retain_feature_degenerate_ring [OF 1 2 3 4 5 6 7 8 9 refl, THEN conjunct1]
  show ?thesis
    by (simp add: round names)
qed

subsection \<open>Geometries that cannot be built\<close>

lemmas acquisition_eval =
  EsriRestDownloadTask_download_def esri_download_url_def esri_metadata_def
  read_metadata_def EsriRestDownloadTask_get_file_path_def mkdirsp_def path_join_def
  ancestors_work_esri sample_env_def sample_urlparse_def sample_url_def empty_world_def
  requests_get_def metadata_request_def ok_response_def response_json_def
  path_exists_def dir_entry_def rstrip_sep_def open_write_def dirname_def append_absent_def reproject_extent_def
  extent_corner_def sample_GetEnvelope_def geometry_points_def
  get_bbox.simps numeral_eq_Suc query_tile_def query_loop.simps check_tile_response_def
  check_error_payload_def query_request_def point_tile_def point_feature_def
  retain_feature_def build_ogr_geometry_def row_coordinates_def sample_Centroid_def
  sample_round_def mean_of_def quadrants_def

theorem C6_counterexample:
  "fst (EsriRestDownloadTask_download (sample_env envelope_server) None [sample_url] ''/work'' empty_world)
     = Inl (KeyError ''Don't know how to convert esri geometry type esriGeometryEnvelope'')"
  by (simp add: acquisition_eval envelope_server_def envelope_metadata_def envelope_feature_def)

lemma emit_rows_skip:
  assumes "build_ogr_geometry gt f = Inl (TypeError m)"
  shows "emit_rows e gt names (pre @ f # post) st = emit_rows e gt names (pre @ post) st"
proof (induction pre arbitrary: st)
  case Nil
  obtain rows count where st: "st = (rows, count)" by (cases st)
  have "emit_row e gt names f = Inl (TypeError m)"
    using assms by (simp add: emit_row_def)
  then show ?case by (simp add: st)
next
  case (Cons p pre)
  obtain rows count where st: "st = (rows, count)" by (cases st)
  show ?case
    by (cases "emit_row e gt names p") (simp_all add: st Cons.IH)
qed

lemma build_ogr_geometry_unsupported:
  assumes "py_contains ''geometry'' f = Inr True" and "gt \<notin> supported_geometry_types"
  shows "build_ogr_geometry gt f
           = Inl (KeyError (''Don't know how to convert esri geometry type '' @ py_str gt))"
  using assms by (simp add: build_ogr_geometry_def supported_geometry_types_def)

text \<open>
  Claim C6, as amended. In the loop that writes the CSV, an entry for which
  \<^verbatim>\<open>build_ogr_geometry\<close> raises a \<^verbatim>\<open>TypeError\<close> (it has no \<^verbatim>\<open>geometry\<close> member) is
  skipped and the loop goes on with the entries around it. A geometry type outside the
  supported set is another matter: \<^verbatim>\<open>build_ogr_geometry\<close> raises a \<^verbatim>\<open>KeyError\<close>, which
  the handler does not catch, and the loop ends with it; so does, before that, the loop
  over the features of a tile at the first feature it has not seen yet.
\<close>

theorem C6_only_TypeError_is_skipped:
  "(build_ogr_geometry gt f = Inl (TypeError m) \<longrightarrow>
      emit_rows e gt names (pre @ f # post) st = emit_rows e gt names (pre @ post) st)
   \<and> (py_contains ''geometry'' f = Inr True \<and> gt \<notin> supported_geometry_types \<longrightarrow>
        build_ogr_geometry gt f
          = Inl (KeyError (''Don't know how to convert esri geometry type '' @ py_str gt))
      \<and> emit_rows e gt names (f # post) (rows, count)
          = (Inl (KeyError (''Don't know how to convert esri geometry type '' @ py_str gt)), rows, count))
   \<and> (py_get f ''attributes'' (JObj []) = Inr row
        \<and> py_item_j row (objectid_fieldname c) = Inr oid \<and> py_hash_key oid = Inr k \<and> k \<notin> ids
        \<and> py_contains ''geometry'' f = Inr True \<and> gt \<notin> supported_geometry_types \<longrightarrow>
        retain_feature e c gt f ids
          = Inl (KeyError (''Don't know how to convert esri geometry type '' @ py_str gt)))"
proof (intro conjI impI)
  assume "build_ogr_geometry gt f = Inl (TypeError m)"
  then show "emit_rows e gt names (pre @ f # post) st = emit_rows e gt names (pre @ post) st"
    by (rule emit_rows_skip)
next
  assume a: "py_contains ''geometry'' f = Inr True \<and> gt \<notin> supported_geometry_types"
  then show b: "build_ogr_geometry gt f
          = Inl (KeyError (''Don't know how to convert esri geometry type '' @ py_str gt))"
    by (simp add: build_ogr_geometry_unsupported)
  then show "emit_rows e gt names (f # post) (rows, count)
          = (Inl (KeyError (''Don't know how to convert esri geometry type '' @ py_str gt)), rows, count)"
    by (simp add: emit_row_def)
next
  assume "py_get f ''attributes'' (JObj []) = Inr row
        \<and> py_item_j row (objectid_fieldname c) = Inr oid \<and> py_hash_key oid = Inr k \<and> k \<notin> ids
        \<and> py_contains ''geometry'' f = Inr True \<and> gt \<notin> supported_geometry_types"
  then show "retain_feature e c gt f ids
          = Inl (KeyError (''Don't know how to convert esri geometry type '' @ py_str gt))"
    by (simp add: retain_feature_def build_ogr_geometry_unsupported)
qed

theorem C6_witness:
  "emit_rows (sample_env sparse_server) (JStr ''esriGeometryPoint'') sample_names
       [retained_point 1 1 1, point_feature 2 3 3] ([], 0)
     = (Inr (), [JObj [(''OBJECTID'', JNum 2), (''GEOM'', JStr ''GEOMETRY''), (''X'', JNum 3), (''Y'', JNum 3)]], 1)
   \<and> emit_rows (sample_env sparse_server) (JStr ''esriGeometryEnvelope'') sample_names
       [envelope_feature, point_feature 2 3 3] ([], 0)
     = (Inl (KeyError ''Don't know how to convert esri geometry type esriGeometryEnvelope''), [], 0)
   \<and> retain_feature (sample_env sparse_server) sample_ctx (JStr ''esriGeometryEnvelope'')
       envelope_feature {}
     = Inl (KeyError ''Don't know how to convert esri geometry type esriGeometryEnvelope'')"
proof -
  let ?e = "sample_env sparse_server"
  have 1: "build_ogr_geometry (JStr ''esriGeometryPoint'') (retained_point 1 1 1)
             = Inl (TypeError ''No geometry for feature'')"
    by (simp add: build_ogr_geometry_def retained_point_def)
  have 2: "py_contains ''geometry'' envelope_feature = Inr True
           \<and> JStr ''esriGeometryEnvelope'' \<notin> supported_geometry_types"
    by (simp add: envelope_feature_def supported_geometry_types_def)
  have 3: "py_get envelope_feature ''attributes'' (JObj []) = Inr (JObj [(''OBJECTID'', JNum 1)])
        \<and> py_item_j (JObj [(''OBJECTID'', JNum 1)]) (objectid_fieldname sample_ctx) = Inr (JNum 1)
        \<and> py_hash_key (JNum 1) = Inr (JNum 1) \<and> JNum 1 \<notin> {}
        \<and> py_contains ''geometry'' envelope_feature = Inr True
        \<and> JStr ''esriGeometryEnvelope'' \<notin> supported_geometry_types"
    by (simp add: envelope_feature_def supported_geometry_types_def sample_ctx_def)
  have a: "emit_rows ?e (JStr ''esriGeometryPoint'') sample_names
       [retained_point 1 1 1, point_feature 2 3 3] ([], 0)
     = (Inr (), [JObj [(''OBJECTID'', JNum 2), (''GEOM'', JStr ''GEOMETRY''), (''X'', JNum 3), (''Y'', JNum 3)]], 1)"
    using C6_only_TypeError_is_skipped
      [where gt = "JStr ''esriGeometryPoint''" and f = "retained_point 1 1 1"
         and m = "''No geometry for feature''" and e = ?e and names = sample_names
         and pre = "[]" and post = "[point_feature 2 3 3]" and st = "([], 0)",
       THEN conjunct1, rule_format, OF 1]
    by (simp add: emit_row_def build_ogr_geometry_def point_feature_def row_coordinates_def
        sample_env_def sample_Centroid_def sample_round_def sample_names_def)
  have b: "emit_rows ?e (JStr ''esriGeometryEnvelope'') sample_names
       [envelope_feature, point_feature 2 3 3] ([], 0)
     = (Inl (KeyError ''Don't know how to convert esri geometry type esriGeometryEnvelope''), [], 0)"
    using C6_only_TypeError_is_skipped
      [where f = envelope_feature and gt = "JStr ''esriGeometryEnvelope''" and e = ?e
         and names = sample_names and post = "[point_feature 2 3 3]" and rows = "[]" and count = 0,
       THEN conjunct2, THEN conjunct1, rule_format, OF 2, THEN conjunct2]
    by simp
  have c: "retain_feature ?e sample_ctx (JStr ''esriGeometryEnvelope'') envelope_feature {}
     = Inl (KeyError ''Don't know how to convert esri geometry type esriGeometryEnvelope'')"
    using C6_only_TypeError_is_skipped
      [where f = envelope_feature and gt = "JStr ''esriGeometryEnvelope''" and e = ?e
         and c = sample_ctx and ids = "{}",
       THEN conjunct2, THEN conjunct2, rule_format, OF 3]
    by simp
  from a b c show ?thesis by simp
qed

text \<open>A feature without geometry met in a tile is fatal: the call in \<^verbatim>\<open>get_bbox\<close> has no
  handler.\<close>

lemma retain_feature_no_geometry:
  assumes "py_get f ''attributes'' (JObj []) = Inr row"
    and "py_item_j row (objectid_fieldname c) = Inr oid"
    and "py_hash_key oid = Inr k" and "k \<notin> ids"
    and "py_contains ''geometry'' f = Inr False"
  shows "retain_feature e c gt f ids = Inl (TypeError ''No geometry for feature'')"
  using assms by (simp add: retain_feature_def build_ogr_geometry_def)

text \<open>What \<^verbatim>\<open>get_bbox\<close> returns are rows, the \<^verbatim>\<open>attributes\<close> of the features, and the loop
  that writes the CSV passes them to \<^verbatim>\<open>build_ogr_geometry\<close> as if they were features: a
  row without a column named \<^verbatim>\<open>geometry\<close> is skipped, so that a layer without such a
  column yields a CSV without rows.\<close>

lemma emit_rows_all_skipped:
  assumes "\<forall>row\<in>set rows. py_contains ''geometry'' row = Inr False"
  shows "emit_rows e gt names rows st = (Inr (), st)"
  using assms
proof (induction rows)
  case Nil
  show ?case by (cases st) simp
next
  case (Cons row rows)
  then have "emit_row e gt names row = Inl (TypeError ''No geometry for feature'')"
    by (simp add: emit_row_def build_ogr_geometry_def)
  with Cons show ?case by (cases st) simp
qed

lemma degenerate_tile:
  assumes "objectid_fieldname c = JStr ''OBJECTID''" and "max_record_count c = JNum 1000"
    and "source_url c = sample_url"
  shows "get_bbox (Suc d) (sample_env degenerate_server) c {} b w
     = (Inr ([JObj [(''OBJECTID'', JNum 7), (''X'', JNum 1), (''Y'', JNum 2)]], {JNum 7}),
        w\<lparr>sent := sent w @ [query_request c b], printed := printed w @ [(1, b)]\<rparr>)"
  using assms
  by (simp add: get_bbox.simps query_tile_def query_loop.simps sample_env_fields degenerate_server_def
      sample_url_def requests_get_def check_tile_response_def
      check_error_payload_def response_json_def query_request_def ok_response_def
      degenerate_feature_def retain_feature_def build_ogr_geometry_def read_lines_def
      read_points_def read_point_def row_coordinates_def sample_Centroid_def LINEAR_RING_MESSAGE_def
      sample_GetEnvelope_def geometry_points_def sample_round_def)

lemma degenerate_traversal:
  assumes "objectid_fieldname c = JStr ''OBJECTID''" and "max_record_count c = JNum 1000"
    and "source_url c = sample_url"
  shows "get_bbox 1000 (sample_env degenerate_server) c {} b w
     = (Inr ([JObj [(''OBJECTID'', JNum 7), (''X'', JNum 1), (''Y'', JNum 2)]], {JNum 7}),
        w\<lparr>sent := sent w @ [query_request c b], printed := printed w @ [(1, b)]\<rparr>)"
proof -
  have "(1000::nat) = Suc 999" by simp
  then show ?thesis
    by (simp only: degenerate_tile [OF assms])
qed

lemma csv_text_header_only:
  "csv_text (sample_env server) [a, b, c, d] [] = ''4 columns, 0 rows''"
  by (simp add: sample_env_def digit_char_def)

text \<open>
  Claim C8, which the code does not meet. The loop over the features of a tile does what
  the claim says: for a polygon whose ring has three points the centroid fails, the row gets
  the rounded midpoint of the envelope, here \<open>(1, 2)\<close>, and \<^verbatim>\<open>get_bbox\<close> returns it.
  But the row does not reach the output: the loop that writes the CSV hands each returned
  row, which is the feature's \<^verbatim>\<open>attributes\<close> and has no \<^verbatim>\<open>geometry\<close> member, to
  \<^verbatim>\<open>build_ogr_geometry\<close>; the \<^verbatim>\<open>TypeError\<close> is caught and the row skipped. The
  acquisition of a layer whose only feature is such a polygon returns the path of a CSV
  that holds the header and no row.
\<close>

theorem C8_degenerate_row_is_not_written:
  "fst (get_bbox (recursion_limit (sample_env degenerate_server)) (sample_env degenerate_server)
          degenerate_ctx {} sample_box empty_world)
     = Inr ([JObj [(''OBJECTID'', JNum 7), (''X'', JNum 1), (''Y'', JNum 2)]], {JNum 7})
   \<and> fst (EsriRestDownloadTask_download (sample_env degenerate_server) None [sample_url] ''/work'' empty_world)
     = Inr [''/work/esri/example.com-sha1:exa.csv'']
   \<and> files (snd (EsriRestDownloadTask_download (sample_env degenerate_server) None [sample_url] ''/work''
        empty_world)) ''/work/esri/example.com-sha1:exa.csv''
     = Some ''4 columns, 0 rows''"
proof (intro conjI)
  show "fst (get_bbox (recursion_limit (sample_env degenerate_server)) (sample_env degenerate_server)
          degenerate_ctx {} sample_box empty_world)
     = Inr ([JObj [(''OBJECTID'', JNum 7), (''X'', JNum 1), (''Y'', JNum 2)]], {JNum 7})"
    by (simp add: names_sample_env degenerate_traversal degenerate_ctx_def)
  show "fst (EsriRestDownloadTask_download (sample_env degenerate_server) None [sample_url] ''/work'' empty_world)
     = Inr [''/work/esri/example.com-sha1:exa.csv'']"
    by (simp add: EsriRestDownloadTask_download_def esri_download_url_def esri_metadata_def
        read_metadata_def EsriRestDownloadTask_get_file_path_def mkdirsp_def path_join_def
        ancestors_work_esri sample_urlparse_def sample_url_def empty_world_def
        requests_get_def metadata_request_def ok_response_def response_json_def
        path_exists_def dir_entry_def rstrip_sep_def open_write_def dirname_def append_absent_def
        reproject_extent_def extent_corner_def sample_GetEnvelope_def geometry_points_def Let_def
        http_sample_env urlparse_sample_env names_sample_env
        degenerate_server_def degenerate_metadata_def degenerate_traversal
        emit_row_def build_ogr_geometry_def csv_text_header_only)
  show "files (snd (EsriRestDownloadTask_download (sample_env degenerate_server) None [sample_url] ''/work''
        empty_world)) ''/work/esri/example.com-sha1:exa.csv''
     = Some ''4 columns, 0 rows''"
    by (simp add: EsriRestDownloadTask_download_def esri_download_url_def esri_metadata_def
        read_metadata_def EsriRestDownloadTask_get_file_path_def mkdirsp_def path_join_def
        ancestors_work_esri sample_urlparse_def sample_url_def empty_world_def
        requests_get_def metadata_request_def ok_response_def response_json_def
        path_exists_def dir_entry_def rstrip_sep_def open_write_def dirname_def append_absent_def
        reproject_extent_def extent_corner_def sample_GetEnvelope_def geometry_points_def Let_def
        http_sample_env urlparse_sample_env names_sample_env
        degenerate_server_def degenerate_metadata_def degenerate_traversal
        emit_row_def build_ogr_geometry_def csv_text_header_only)
qed

subsection \<open>The metadata phase\<close>

lemma metadata_non_200:
  "status_code r \<noteq> 200 \<Longrightarrow> \<exists>m. read_metadata e url r = Inl (DownloadError m None)"
  by (simp add: read_metadata_def)

lemma metadata_error_payload:
  assumes "status_code r = 200" and "json_body r = Some j"
    and "py_get j ''error'' JNull = Inr err" and "py_truthy err"
    and "py_item err ''message'' = Inr msg"
  shows "\<exists>m. read_metadata e url r = Inl (DownloadError m None)"
  using assms by (simp add: read_metadata_def response_json_def)

lemma metadata_no_fields:
  assumes "status_code r = 200" and "json_body r = Some j"
    and "py_get j ''error'' JNull = Inr err" and "\<not> py_truthy err"
    and "py_get j ''fields'' JNull = Inr fields0" and "\<not> py_truthy fields0"
  shows "read_metadata e url r = Inl (DownloadError ''No fields available in the source'' None)"
  using assms by (simp add: read_metadata_def response_json_def)

lemma metadata_no_objectid:
  assumes "status_code r = 200" and "json_body r = Some j"
    and "py_get j ''error'' JNull = Inr err" and "\<not> py_truthy err"
    and "py_get j ''fields'' JNull = Inr fields0" and "py_truthy fields0"
    and "py_iter fields0 = Inr fs" and "emap (\<lambda>f. py_item f ''name'') fs = Inr names"
    and "find_objectid_fieldname fs = Inr oid_name" and "\<not> py_truthy oid_name"
  shows "read_metadata e url r = Inl (DownloadError ''Could not find objectid field name'' None)"
proof -
  from assms(5,6) have "py_item j ''fields'' = Inr fields0"
    by (cases j) (auto split: option.splits)
  with assms show ?thesis
    by (simp add: read_metadata_def response_json_def)
qed

lemma metadata_no_geometry_type:
  assumes "status_code r = 200" and "json_body r = Some j"
    and "py_get j ''error'' JNull = Inr err" and "\<not> py_truthy err"
    and "py_get j ''fields'' JNull = Inr fields0" and "py_truthy fields0"
    and "py_iter fields0 = Inr fs" and "emap (\<lambda>f. py_item f ''name'') fs = Inr names"
    and "find_objectid_fieldname fs = Inr oid_name" and "py_truthy oid_name"
    and "py_get j ''geometryType'' JNull = Inr gt" and "\<not> py_truthy gt"
  shows "read_metadata e url r = Inl (DownloadError ''Could not determine geometry type'' None)"
proof -
  from assms(5,6) have "py_item j ''fields'' = Inr fields0"
    by (cases j) (auto split: option.splits)
  with assms show ?thesis
    by (simp add: read_metadata_def response_json_def)
qed

lemma metadata_no_extent:
  assumes "status_code r = 200" and "json_body r = Some j"
    and "py_get j ''error'' JNull = Inr err" and "\<not> py_truthy err"
    and "py_get j ''fields'' JNull = Inr fields0" and "py_truthy fields0"
    and "py_iter fields0 = Inr fs" and "emap (\<lambda>f. py_item f ''name'') fs = Inr names"
    and "find_objectid_fieldname fs = Inr oid_name" and "py_truthy oid_name"
    and "py_get j ''geometryType'' JNull = Inr gt" and "py_truthy gt"
    and "map_of kv ''extent'' = None" and "j = JObj kv"
  shows "read_metadata e url r = Inl (TypeError ''subscript'')"
proof -
  from assms(5,6) have "py_item j ''fields'' = Inr fields0"
    by (cases j) (auto split: option.splits)
  with assms show ?thesis
    by (simp add: read_metadata_def response_json_def reproject_extent_def extent_corner_def
        split: option.splits)
qed

text \<open>
  Claim C7. The metadata phase fails with a \<^verbatim>\<open>DownloadError\<close> when the response is not
  200, carries an error object, has no fields, no object-id field, no geometry type or no
  extent.

  The first five hold (lemmas \<open>metadata_non_200\<close> to \<open>metadata_no_geometry_type\<close> above).
  The sixth does not: the extent is read with \<^verbatim>\<open>metadata.get('extent')\<close> and subscripted
  unchecked, so that a layer without extent ends in the \<^verbatim>\<open>TypeError\<close> of
  \<^verbatim>\<open>None['xmin']\<close>.
\<close>

theorem C7_missing_extent_is_a_TypeError:
  "esri_metadata (sample_env no_extent_server) sample_url empty_world
     = (Inl (TypeError ''subscript''), empty_world\<lparr>sent := [metadata_request sample_url]\<rparr>)"
  by (simp add: esri_metadata_def read_metadata_def sample_env_def no_extent_server_def
      empty_world_def requests_get_def ok_response_def response_json_def append_absent_def
      reproject_extent_def extent_corner_def)

subsection \<open>The cache\<close>

lemma basename_no_slash: "CHR ''/'' \<notin> set (basename p)"
  by (auto simp: basename_def dest: set_takeWhileD)

lemma path_join_plain:
  assumes "r \<noteq> []" "last r \<noteq> CHR ''/''" "CHR ''/'' \<notin> set n"
  shows "path_join r n = r @ ''/'' @ n"
  using assms by (cases n) (auto simp: path_join_def)

lemma dirname_path_join:
  assumes "r \<noteq> []" "last r \<noteq> CHR ''/''" "CHR ''/'' \<notin> set n"
  shows "dirname (path_join r n) = r"
proof -
  from assms(1) obtain r' x where r: "r = r' @ [x]" by (cases r rule: rev_cases) auto
  with assms(2) have x: "x \<noteq> CHR ''/''" by simp
  have drop: "dropWhile (\<lambda>c. c \<noteq> CHR ''/'') (rev n @ CHR ''/'' # x # rev r') = CHR ''/'' # x # rev r'"
  proof -
    have "dropWhile (\<lambda>c. c \<noteq> CHR ''/'') (rev n @ CHR ''/'' # x # rev r')
        = dropWhile (\<lambda>c. c \<noteq> CHR ''/'') (CHR ''/'' # x # rev r')"
      by (rule dropWhile_append2) (use assms(3) in auto)
    then show ?thesis by simp
  qed
  have pj: "path_join r n = r' @ x # CHR ''/'' # n"
    using path_join_plain [OF assms] r by simp
  have "dirname (r' @ x # CHR ''/'' # n) = r' @ [x]"
    using x by (simp add: dirname_def Let_def drop)
  then show ?thesis
    unfolding pj by (simp add: r)
qed

lemma dir_entry_plain: "p \<noteq> [] \<Longrightarrow> last p \<noteq> CHR ''/'' \<Longrightarrow> dir_entry p = p"
  by (cases p rule: rev_cases) (simp_all add: dir_entry_def rstrip_sep_def)

lemma path_join_neq:
  assumes "r \<noteq> []" "last r \<noteq> CHR ''/''" "CHR ''/'' \<notin> set n"
  shows "path_join r n \<noteq> r"
  by (simp add: path_join_plain [OF assms])

text \<open>\<^verbatim>\<open>os.mkdir\<close> of a name with a trailing slash, and \<^verbatim>\<open>shutil.move\<close> into a directory.\<close>

lemma mkdir_trailing_slash:
  "mkdir ''/out/cached/'' cache_world
     = (Inr (), cache_world\<lparr>dirs := {''/'', ''/out'', ''/work'', ''/work/http'', ''/out/cached''}\<rparr>)"
  by (simp add: mkdir_def path_exists_def dir_entry_def rstrip_sep_def dirname_def cache_world_def
      insert_commute)

lemma move_into_directory:
  "move ''/work/http/data.zip'' ''/out'' cache_world
     = (Inr (), cache_world\<lparr>files := [''/out/data.zip'' \<mapsto> ''PK'']\<rparr>)"
  by (simp add: move_def path_exists_def dir_entry_def rstrip_sep_def dirname_def basename_def
      path_join_def cache_world_def)

text \<open>
  Claim C4. For an existing artifact, \<^verbatim>\<open>compare_cache_details\<close> computes the fingerprint
  and, when the declared data has a cache reference of scheme \<^verbatim>\<open>http\<close> and this very
  fingerprint, returns both unchanged and leaves the world as it is; otherwise it creates
  the store directory if absent, moves the artifact into it under its basename (the
  source path is gone afterwards) and returns the \<^verbatim>\<open>file://\<close> reference with the new
  fingerprint. The second part is stated where the filesystem lets the two operations
  succeed: the store is a directory or can be made one, and its name has no trailing slash.
\<close>

theorem C4_reconcile:
  assumes "files w filepath = Some bytes"
  shows "(data ''cache'' = Some c \<and> scheme (urlparse e c) = ''http''
            \<and> data ''fingerprint'' = Some (md5_hexdigest e bytes)
          \<longrightarrow> compare_cache_details e filepath resultdir data w = (Inr (c, md5_hexdigest e bytes), w))
       \<and> (\<not> (scheme (urlparse e (case data ''cache'' of None \<Rightarrow> [] | Some u \<Rightarrow> u)) = ''http''
               \<and> data ''fingerprint'' = Some (md5_hexdigest e bytes))
            \<and> resultdir \<noteq> [] \<and> last resultdir \<noteq> CHR ''/''
            \<and> (resultdir \<in> dirs w \<or> \<not> path_exists w resultdir \<and> dirname resultdir \<in> dirs w)
            \<and> path_join resultdir (basename filepath) \<notin> dirs w
          \<longrightarrow> compare_cache_details e filepath resultdir data w
                = (Inr (''file://'' @ path_join (abspath e resultdir) (basename filepath),
                        md5_hexdigest e bytes),
                   w\<lparr>dirs := insert resultdir (dirs w),
                     files := ((files w)(filepath := None))
                                (path_join resultdir (basename filepath) \<mapsto> bytes)\<rparr>))"
proof (intro conjI impI)
  have ex: "path_exists w filepath" and rd: "open_read filepath w = Inr bytes"
    using assms by (simp_all add: path_exists_def open_read_def)
  {
    assume h: "data ''cache'' = Some c \<and> scheme (urlparse e c) = ''http''
              \<and> data ''fingerprint'' = Some (md5_hexdigest e bytes)"
    then have "known_cache e data (md5_hexdigest e bytes)"
      by (simp add: known_cache_def)
    with h show "compare_cache_details e filepath resultdir data w = (Inr (c, md5_hexdigest e bytes), w)"
      by (simp add: compare_cache_details_def ex rd)
  }
  let ?dst = "path_join resultdir (basename filepath)"
  assume a: "\<not> (scheme (urlparse e (case data ''cache'' of None \<Rightarrow> [] | Some u \<Rightarrow> u)) = ''http''
               \<and> data ''fingerprint'' = Some (md5_hexdigest e bytes))
            \<and> resultdir \<noteq> [] \<and> last resultdir \<noteq> CHR ''/''
            \<and> (resultdir \<in> dirs w \<or> \<not> path_exists w resultdir \<and> dirname resultdir \<in> dirs w)
            \<and> ?dst \<notin> dirs w"
  then have r: "resultdir \<noteq> []" "last resultdir \<noteq> CHR ''/''" by simp_all
  have dn: "dirname ?dst = resultdir"
    using r basename_no_slash by (rule dirname_path_join)
  have ne: "?dst \<noteq> resultdir"
    using r basename_no_slash by (rule path_join_neq)
  let ?w1 = "w\<lparr>dirs := insert resultdir (dirs w)\<rparr>"
  have mk: "(if \<not> path_exists w resultdir then mkdir resultdir w else (Inr (), w)) = (Inr (), ?w1)"
  proof (cases "resultdir \<in> dirs w")
    case True
    then show ?thesis by (simp add: path_exists_def insert_absorb)
  next
    case False
    with a r show ?thesis by (simp add: mkdir_def dir_entry_plain)
  qed
  have mv: "move filepath ?dst ?w1
      = (Inr (), ?w1\<lparr>files := ((files w)(filepath := None))(?dst \<mapsto> bytes)\<rparr>)"
    using assms a dn ne by (simp add: move_def)
  from a have miss: "\<not> known_cache e data (md5_hexdigest e bytes)"
    by (auto simp: known_cache_def)
  show "compare_cache_details e filepath resultdir data w
                = (Inr (''file://'' @ path_join (abspath e resultdir) (basename filepath),
                        md5_hexdigest e bytes),
                   w\<lparr>dirs := insert resultdir (dirs w),
                     files := ((files w)(filepath := None))(?dst \<mapsto> bytes)\<rparr>)"
    by (simp add: compare_cache_details_def ex rd miss Let_def mk mv)
qed

theorem C4_witness:
  "compare_cache_details (sample_env failing_server) ''/work/http/data.zip'' ''/out/cached'' published cache_world
     = (Inr (''http://data.example.com/cache/data.zip'', ''md5:PK''), cache_world)
   \<and> compare_cache_details (sample_env failing_server) ''/work/http/data.zip'' ''/out/cached'' Map.empty cache_world
     = (Inr (''file:///out/cached/data.zip'', ''md5:PK''),
        cache_world\<lparr>dirs := {''/'', ''/out'', ''/work'', ''/work/http'', ''/out/cached''},
          files := [''/out/cached/data.zip'' \<mapsto> ''PK'']\<rparr>)"
proof -
  let ?e = "sample_env failing_server"
  have f: "files cache_world ''/work/http/data.zip'' = Some ''PK''"
    by (simp add: cache_world_def)
  have md5: "md5_hexdigest ?e ''PK'' = ''md5:PK''" and ab: "abspath ?e ''/out/cached'' = ''/out/cached''"
    by (simp_all add: sample_env_def)
  have hit: "published ''cache'' = Some ''http://data.example.com/cache/data.zip''
      \<and> scheme (urlparse ?e ''http://data.example.com/cache/data.zip'') = ''http''
      \<and> published ''fingerprint'' = Some (md5_hexdigest ?e ''PK'')"
    by (simp add: published_def sample_env_def sample_urlparse_def)
  have miss: "\<not> (scheme (urlparse ?e (case Map.empty ''cache'' of None \<Rightarrow> [] | Some u \<Rightarrow> u)) = ''http''
               \<and> Map.empty ''fingerprint'' = Some (md5_hexdigest ?e ''PK''))
            \<and> ''/out/cached'' \<noteq> [] \<and> last ''/out/cached'' \<noteq> CHR ''/''
            \<and> (''/out/cached'' \<in> dirs cache_world
                \<or> \<not> path_exists cache_world ''/out/cached'' \<and> dirname ''/out/cached'' \<in> dirs cache_world)
            \<and> path_join ''/out/cached'' (basename ''/work/http/data.zip'') \<notin> dirs cache_world"
    by (simp add: cache_world_def path_exists_def dir_entry_def rstrip_sep_def dirname_def path_join_def basename_def)
  have 1: "compare_cache_details ?e ''/work/http/data.zip'' ''/out/cached'' published cache_world
     = (Inr (''http://data.example.com/cache/data.zip'', ''md5:PK''), cache_world)"
    using C4_reconcile [OF f, THEN conjunct1, rule_format, OF hit] by (simp add: md5)
  have 2: "compare_cache_details ?e ''/work/http/data.zip'' ''/out/cached'' Map.empty cache_world
     = (Inr (''file:///out/cached/data.zip'', ''md5:PK''),
        cache_world\<lparr>dirs := {''/'', ''/out'', ''/work'', ''/work/http'', ''/out/cached''},
          files := [''/out/cached/data.zip'' \<mapsto> ''PK'']\<rparr>)"
    using C4_reconcile [OF f, THEN conjunct2, rule_format, OF miss]
    by (simp add: md5 ab path_join_def basename_def cache_world_def insert_commute)
  from 1 2 show ?thesis ..
qed

lemma splitext_data_zip: "splitext ''/data.zip'' = (''/data'', ''.zip'')"
  by (simp add: splitext_def basename_def Let_def)

lemma splitext_list_php: "splitext ''/list.php'' = (''/list'', ''.php'')"
  by (simp add: splitext_def basename_def Let_def)

theorem C9_counterexample:
  "guess_url_file_extension (sample_env failing_server) ''ftp://example.com/data.zip'' empty_world
     = (Inr (Some ''.zip''), empty_world)"
  by (simp add: guess_url_file_extension_def sample_env_def sample_urlparse_def splitext_data_zip
      bad_extensions_def Let_def)

text \<open>
  Claim C9, as amended. A URL whose scheme is none of \<^verbatim>\<open>http\<close>, \<^verbatim>\<open>https\<close>, \<^verbatim>\<open>file\<close>
  and the empty one makes the resolver raise a \<^verbatim>\<open>ValueError\<close>, provided the URL has a
  query string or its path extension is one of the meaningless ones. Without a query string
  and with any other path extension the resolver returns that extension and never looks at
  the scheme.
\<close>

theorem C9_unsupported_scheme_without_path_hint:
  "(scheme (urlparse e url) \<notin> {''http'', ''https'', ''file'', []}
      \<and> (query (urlparse e url) \<noteq> []
           \<or> snd (splitext (path (urlparse e url))) \<in> set bad_extensions)
    \<longrightarrow> guess_url_file_extension e url w
          = (Inl (ValueError (''Unknown scheme '' @ [CHR 0x22] @ scheme (urlparse e url) @ [CHR 0x22]
                                @ '': '' @ url)), w))
   \<and> (query (urlparse e url) = []
      \<and> snd (splitext (path (urlparse e url))) \<notin> set bad_extensions
    \<longrightarrow> guess_url_file_extension e url w
          = (Inr (Some (snd (splitext (path (urlparse e url))))), w))"
proof (intro conjI impI)
  assume "scheme (urlparse e url) \<notin> {''http'', ''https'', ''file'', []}
      \<and> (query (urlparse e url) \<noteq> []
           \<or> snd (splitext (path (urlparse e url))) \<in> set bad_extensions)"
  then show "guess_url_file_extension e url w
          = (Inl (ValueError (''Unknown scheme '' @ [CHR 0x22] @ scheme (urlparse e url) @ [CHR 0x22]
                                @ '': '' @ url)), w)"
    by (auto simp: guess_url_file_extension_def peek_url_def Let_def)
next
  assume "query (urlparse e url) = []
      \<and> snd (splitext (path (urlparse e url))) \<notin> set bad_extensions"
  then show "guess_url_file_extension e url w
          = (Inr (Some (snd (splitext (path (urlparse e url))))), w)"
    by (simp add: guess_url_file_extension_def Let_def)
qed

theorem C9_witness:
  "guess_url_file_extension (sample_env failing_server) ''gopher://example.com/list.php'' empty_world
     = (Inl (ValueError (''Unknown scheme '' @ [CHR 0x22] @ ''gopher'' @ [CHR 0x22]
                            @ '': gopher://example.com/list.php'')), empty_world)"
proof -
  let ?e = "sample_env failing_server"
  have u: "urlparse ?e ''gopher://example.com/list.php''
      = \<lparr>scheme = ''gopher'', netloc = ''example.com'', path = ''/list.php'', params = [],
         query = [], fragment = []\<rparr>"
    by (simp add: sample_env_def sample_urlparse_def)
  have 1: "scheme (urlparse ?e ''gopher://example.com/list.php'') \<notin> {''http'', ''https'', ''file'', []}
      \<and> (query (urlparse ?e ''gopher://example.com/list.php'') \<noteq> []
           \<or> snd (splitext (path (urlparse ?e ''gopher://example.com/list.php'')))
               \<in> set bad_extensions)"
    by (simp add: u splitext_list_php bad_extensions_def)
  from C9_unsupported_scheme_without_path_hint [THEN conjunct1, rule_format, OF 1, of empty_world]
  show ?thesis
    by (simp add: u)
qed

subsection \<open>The generic download\<close>

lemma guess_url_file_extension_files:
  "guess_url_file_extension e url w = (res, w1) \<Longrightarrow> files w1 = files w \<and> dirs w1 = dirs w"
  by (auto simp: guess_url_file_extension_def peek_url_def requests_get_def Let_def
      split: if_splits sum.splits option.splits)

lemma URLDownloadTask_get_file_path_files:
  "URLDownloadTask_get_file_path e sp url dp w = (res, w1) \<Longrightarrow> files w1 = files w \<and> dirs w1 = dirs w"
  by (auto simp: URLDownloadTask_get_file_path_def Let_def
      split: prod.splits sum.splits option.splits dest: guess_url_file_extension_files)

theorem C5_counterexample:
  "fst (URLDownloadTask_download (sample_env failing_server) None [''http://example.com/data.zip'']
          ''/work'' empty_world) = Inr [''/work/http/data.zip'']
   \<and> files (snd (URLDownloadTask_download (sample_env failing_server) None [''http://example.com/data.zip'']
          ''/work'' empty_world)) ''/work/http/data.zip'' = Some ''Internal Server Error''"
  by (simp add: URLDownloadTask_download_def url_download_url_def URLDownloadTask_get_file_path_def
      guess_url_file_extension_def sample_env_def sample_urlparse_def splitext_data_zip
      bad_extensions_def Let_def mkdirsp_def path_join_def dirname_def basename_def
      empty_world_def path_exists_def dir_entry_def rstrip_sep_def requests_get_def failing_server_def download_request_def
      open_write_def)

text \<open>
  Claim C5, as amended. For a URL that is not of scheme \<^verbatim>\<open>file\<close> and whose destination
  does not exist yet, a response with a status from 400 to 498 raises a \<^verbatim>\<open>DownloadError\<close>
  whose message holds the status and the URL, and a failure to connect raises a
  \<^verbatim>\<open>DownloadError\<close> that wraps the cause; in both cases the loop over the URLs ends there
  and no file has been written. A status below 400 or from 500 on is not checked: the body
  is written to the destination and the loop goes on with the next URL.
\<close>

theorem C5_client_errors_and_connection_failures:
  assumes "URLDownloadTask_get_file_path e sp url dp w = (Inr fp, w1)"
    and "scheme (urlparse e url) \<noteq> ''file''"
    and "\<not> path_exists w1 fp"
  shows "(\<forall>r. http e (length (sent w1)) (download_request url) = Inr r
              \<and> 400 \<le> status_code r \<and> status_code r \<le> 498
            \<longrightarrow> url_download_urls e sp dp (url # rest) out w
                  = (Inl (DownloadError (str_int (status_code r) @ '' response from '' @ url) None),
                     w1\<lparr>sent := sent w1 @ [download_request url]\<rparr>))
       \<and> (\<forall>m. http e (length (sent w1)) (download_request url) = Inl m
            \<longrightarrow> url_download_urls e sp dp (url # rest) out w
                  = (Inl (DownloadError ''Could not connect to URL'' (Some (RequestException m))),
                     w1\<lparr>sent := sent w1 @ [download_request url]\<rparr>))
       \<and> files w1 = files w
       \<and> (\<forall>r. http e (length (sent w1)) (download_request url) = Inr r
              \<and> (status_code r < 400 \<or> 500 \<le> status_code r) \<and> dirname fp \<in> dirs w1
            \<longrightarrow> url_download_urls e sp dp (url # rest) out w
                  = url_download_urls e sp dp rest (out @ [fp])
                      (w1\<lparr>sent := sent w1 @ [download_request url],
                          files := (files w1)(fp \<mapsto> content r)\<rparr>))"
proof (intro conjI allI impI)
  fix r
  assume "http e (length (sent w1)) (download_request url) = Inr r
              \<and> (status_code r < 400 \<or> 500 \<le> status_code r) \<and> dirname fp \<in> dirs w1"
  then show "url_download_urls e sp dp (url # rest) out w
                  = url_download_urls e sp dp rest (out @ [fp])
                      (w1\<lparr>sent := sent w1 @ [download_request url],
                          files := (files w1)(fp \<mapsto> content r)\<rparr>)"
    using assms by (auto simp: url_download_url_def requests_get_def open_write_def path_exists_def)
next
  fix r
  assume "http e (length (sent w1)) (download_request url) = Inr r
              \<and> 400 \<le> status_code r \<and> status_code r \<le> 498"
  then show "url_download_urls e sp dp (url # rest) out w
                  = (Inl (DownloadError (str_int (status_code r) @ '' response from '' @ url) None),
                     w1\<lparr>sent := sent w1 @ [download_request url]\<rparr>)"
    using assms by (simp add: url_download_url_def requests_get_def)
next
  fix m
  assume "http e (length (sent w1)) (download_request url) = Inl m"
  then show "url_download_urls e sp dp (url # rest) out w
                  = (Inl (DownloadError ''Could not connect to URL'' (Some (RequestException m))),
                     w1\<lparr>sent := sent w1 @ [download_request url]\<rparr>)"
    using assms by (simp add: url_download_url_def requests_get_def)
next
  show "files w1 = files w"
    using assms(1) by (simp add: URLDownloadTask_get_file_path_files)
qed

lemma str_int_404: "str_int 404 = ''404''"
  by (simp add: str_int_def digit_char_def)

lemma sample_get_file_path:
  "URLDownloadTask_get_file_path (sample_env server) None ''http://example.com/data.zip'' ''/work/http''
      work_world = (Inr ''/work/http/data.zip'', work_world)"
  by (simp add: URLDownloadTask_get_file_path_def guess_url_file_extension_def sample_env_def
      sample_urlparse_def splitext_data_zip bad_extensions_def Let_def path_join_def basename_def)

theorem C5_witness:
  "url_download_urls (sample_env not_found_server) None ''/work/http'' [''http://example.com/data.zip'']
       [] work_world
     = (Inl (DownloadError ''404 response from http://example.com/data.zip'' None),
        work_world\<lparr>sent := [download_request ''http://example.com/data.zip'']\<rparr>)
   \<and> url_download_urls (sample_env unreachable_server) None ''/work/http'' [''http://example.com/data.zip'']
       [] work_world
     = (Inl (DownloadError ''Could not connect to URL'' (Some (RequestException ''Connection refused''))),
        work_world\<lparr>sent := [download_request ''http://example.com/data.zip'']\<rparr>)"
proof -
  let ?url = "''http://example.com/data.zip''"
  have s: "scheme (urlparse (sample_env server) ?url) \<noteq> ''file''" for server
    by (simp add: sample_env_def sample_urlparse_def)
  have n: "\<not> path_exists work_world ''/work/http/data.zip''"
    by (simp add: path_exists_def dir_entry_def rstrip_sep_def work_world_def)
  have 1: "http (sample_env not_found_server) (length (sent work_world)) (download_request ?url)
             = Inr \<lparr>status_code = 404, resp_text = ''Not Found'', json_body = None,
                    headers = Map.empty, content = ''Not Found''\<rparr>
           \<and> 400 \<le> status_code \<lparr>status_code = 404, resp_text = ''Not Found'', json_body = None,
                    headers = Map.empty, content = ''Not Found''\<rparr>
           \<and> status_code \<lparr>status_code = 404, resp_text = ''Not Found'', json_body = None,
                    headers = Map.empty, content = ''Not Found''\<rparr> \<le> 498"
    by (simp add: sample_env_def not_found_server_def)
  have 2: "http (sample_env unreachable_server) (length (sent work_world)) (download_request ?url)
             = Inl ''Connection refused''"
    by (simp add: sample_env_def unreachable_server_def)
  have a: "url_download_urls (sample_env not_found_server) None ''/work/http'' [?url] [] work_world
     = (Inl (DownloadError ''404 response from http://example.com/data.zip'' None),
        work_world\<lparr>sent := [download_request ?url]\<rparr>)"
    using C5_client_errors_and_connection_failures [OF sample_get_file_path s n,
        THEN conjunct1, rule_format, OF 1, of "[]" "[]"]
    by (simp add: str_int_404 work_world_def)
  have b: "url_download_urls (sample_env unreachable_server) None ''/work/http'' [?url] [] work_world
     = (Inl (DownloadError ''Could not connect to URL'' (Some (RequestException ''Connection refused''))),
        work_world\<lparr>sent := [download_request ?url]\<rparr>)"
    using C5_client_errors_and_connection_failures [OF sample_get_file_path s n,
        THEN conjunct2, THEN conjunct1, rule_format, OF 2, of "[]" "[]"]
    by (simp add: work_world_def)
  from a b show ?thesis ..
qed

end
